theory Spec2Isabelle
  imports Complex_Main "HOL-Library.Word" "HOL-Library.AList" "HOL-Library.Sublist"
    "HOL-Library.Code_Target_Numeral"
begin

section \<open>The browser platform used by \<^verbatim>\<open>js/api_client.js\<close>\<close>

text \<open>
  The client is three \<^verbatim>\<open>async\<close> methods of the object \<^verbatim>\<open>ApiClient\<close>. Each builds a URL
  with a template literal and \<^verbatim>\<open>encodeURIComponent\<close>, awaits \<^verbatim>\<open>fetch\<close>, tests
  \<^verbatim>\<open>response.ok\<close>, awaits \<^verbatim>\<open>response.json()\<close>, and wraps all of that in
  \<^verbatim>\<open>try { ... } catch (error) { console.error(error); return null; }\<close>.

  The platform functions are modelled first (ECMA-262 for strings, \<^verbatim>\<open>encodeURIComponent\<close>,
  number printing and JSON; the Fetch standard for \<^verbatim>\<open>Response\<close>), then the three
  methods as they are written.
\<close>

subsection \<open>Strings\<close>

text \<open>
  A JavaScript string is a sequence of 16-bit code units (UTF-16), not necessarily
  well-formed: a surrogate code unit may stand alone. \<open>js\<close> embeds an ASCII literal.
\<close>

type_synonym code_unit = "16 word"
type_synonym js_string = "code_unit list"

definition js :: "string \<Rightarrow> js_string" where
  "js s = map of_char s"

subsection \<open>Exceptions\<close>

text \<open>
  The values that can be thrown here: \<^verbatim>\<open>new Error(message)\<close> of the client itself, the
  \<^verbatim>\<open>TypeError\<close> with which \<^verbatim>\<open>fetch\<close> (or reading the body) rejects, the
  \<^verbatim>\<open>SyntaxError\<close> of JSON decoding and the \<^verbatim>\<open>URIError\<close> of \<^verbatim>\<open>encodeURIComponent\<close>.
\<close>

datatype js_error = Error js_string | TypeError js_string | SyntaxError | URIError

subsection \<open>\<^verbatim>\<open>encodeURIComponent\<close>\<close>

text \<open>
  ECMA-262, \<^verbatim>\<open>Encode(string, extraUnescaped)\<close> with no extra unescaped characters:
  the letters, the digits and \<^verbatim>\<open>- _ . ! ~ * ' ( )\<close> are copied; every other code point
  is written as the \<^verbatim>\<open>%XX\<close> escapes of its UTF-8 octets; an unpaired surrogate throws
  \<^verbatim>\<open>URIError\<close>.
\<close>

definition unescaped :: "code_unit \<Rightarrow> bool" where
  "unescaped c =
     (let n = unat c in
        (0x41 \<le> n \<and> n \<le> 0x5A) \<or> (0x61 \<le> n \<and> n \<le> 0x7A) \<or> (0x30 \<le> n \<and> n \<le> 0x39)
        \<or> n \<in> {0x2D, 0x5F, 0x2E, 0x21, 0x7E, 0x2A, 0x27, 0x28, 0x29})"

definition is_leading_surrogate :: "code_unit \<Rightarrow> bool" where
  "is_leading_surrogate c = (0xD800 \<le> unat c \<and> unat c \<le> 0xDBFF)"

definition is_trailing_surrogate :: "code_unit \<Rightarrow> bool" where
  "is_trailing_surrogate c = (0xDC00 \<le> unat c \<and> unat c \<le> 0xDFFF)"

definition surrogate_pair_to_code_point :: "code_unit \<Rightarrow> code_unit \<Rightarrow> nat" where
  "surrogate_pair_to_code_point lead trail =
     (unat lead - 0xD800) * 0x400 + (unat trail - 0xDC00) + 0x10000"

definition utf8_octets :: "nat \<Rightarrow> nat list" where
  "utf8_octets cp =
     (if cp < 0x80 then [cp]
      else if cp < 0x800 then [0xC0 + cp div 0x40, 0x80 + cp mod 0x40]
      else if cp < 0x10000 then
        [0xE0 + cp div 0x1000, 0x80 + cp div 0x40 mod 0x40, 0x80 + cp mod 0x40]
      else
        [0xF0 + cp div 0x40000, 0x80 + cp div 0x1000 mod 0x40,
         0x80 + cp div 0x40 mod 0x40, 0x80 + cp mod 0x40])"

definition hex_digit :: "nat \<Rightarrow> code_unit" where
  "hex_digit d = (if d < 10 then of_nat (0x30 + d) else of_nat (0x41 + (d - 10)))"

definition percent_escape :: "nat \<Rightarrow> js_string" where
  "percent_escape octet = [0x25, hex_digit (octet div 16), hex_digit (octet mod 16)]"

definition escape_code_point :: "nat \<Rightarrow> js_string" where
  "escape_code_point cp = concat (map percent_escape (utf8_octets cp))"

fun encodeURIComponent :: "js_string \<Rightarrow> js_error + js_string" where
  "encodeURIComponent [] = Inr []"
| "encodeURIComponent (c # cs) =
     (if unescaped c then map_sum id ((#) c) (encodeURIComponent cs)
      else if is_leading_surrogate c then
        (case cs of
           [] \<Rightarrow> Inl URIError
         | d # ds \<Rightarrow>
             if is_trailing_surrogate d
             then map_sum id ((@) (escape_code_point (surrogate_pair_to_code_point c d)))
                    (encodeURIComponent ds)
             else Inl URIError)
      else if is_trailing_surrogate c then Inl URIError
      else map_sum id ((@) (escape_code_point (unat c))) (encodeURIComponent cs))"

subsection \<open>Numbers in template literals\<close>

text \<open>
  \<^verbatim>\<open>`${n}`\<close> prints a Number with \<^verbatim>\<open>Number::toString\<close> (ECMA-262). The year parameters
  are integers. A Number is a double: the integers of magnitude up to \<open>2\<^sup>5\<^sup>3 - 1\<close> (the safe
  integers) are all Numbers and are printed with all their digits; a larger integer
  reaches the code as the double nearest to it (ties to the even significand, and
  \<^verbatim>\<open>Infinity\<close> from \<open>2\<^sup>1\<^sup>0\<^sup>2\<^sup>4 - 2\<^sup>9\<^sup>7\<^sup>0\<close> on), which is printed with the fewest digits
  \<open>s\<close> that still denote it: as \<open>s\<close> followed by zeros when the number has at most 21
  digits, and in exponent form (\<^verbatim>\<open>1e+21\<close>, \<^verbatim>\<open>1.5e+21\<close>) beyond.
\<close>

definition is_safe_integer :: "int \<Rightarrow> bool" where
  "is_safe_integer n = (- (2 ^ 53 - 1) \<le> n \<and> n \<le> 2 ^ 53 - 1)"

function decimal_digits :: "nat \<Rightarrow> js_string" where
  "decimal_digits n =
     (if n < 10 then [of_nat (0x30 + n)]
      else decimal_digits (n div 10) @ [of_nat (0x30 + n mod 10)])"
  by pat_completeness auto
termination
  by (relation "measure id") auto

declare decimal_digits.simps [simp del]

function bit_length :: "nat \<Rightarrow> nat" where
  "bit_length n = (if n = 0 then 0 else Suc (bit_length (n div 2)))"
  by pat_completeness auto
termination
  by (relation "measure id") auto

declare bit_length.simps [simp del]

text \<open>The double nearest to a natural number; \<open>None\<close> is \<^verbatim>\<open>Infinity\<close>.\<close>

definition nearest_double :: "nat \<Rightarrow> nat option" where
  "nearest_double m =
     (if m < 2 ^ 53 then Some m
      else
        (let e = bit_length m - 53;
             q = m div 2 ^ e;
             r = m mod 2 ^ e;
             half = 2 ^ (e - 1);
             q' = (if half < r \<or> (r = half \<and> odd q) then q + 1 else q);
             v = q' * 2 ^ e
         in if v < 2 ^ 1024 then Some v else None))"

text \<open>
  The integers \<open>s\<close> of \<open>k\<close> digits for which \<open>s * 10 ^ (n - k)\<close> is read as the double \<open>x\<close>.
  Only the two neighbours of \<open>x\<close> matter, since the nearer one is taken.
\<close>

definition digit_candidates :: "nat \<Rightarrow> nat \<Rightarrow> nat \<Rightarrow> nat list" where
  "digit_candidates x k n =
     filter (\<lambda>s. 10 ^ (k - 1) \<le> s \<and> s < 10 ^ k \<and> nearest_double (s * 10 ^ (n - k)) = Some x)
       [x div 10 ^ (n - k), x div 10 ^ (n - k) + 1]"

definition closest_candidate :: "nat \<Rightarrow> nat \<Rightarrow> nat \<Rightarrow> nat list \<Rightarrow> nat" where
  "closest_candidate x k n ss =
     (case ss of
        [lo, hi] \<Rightarrow>
          (let below = x - lo * 10 ^ (n - k); above = hi * 10 ^ (n - k) - x
           in if below < above then lo else if above < below then hi
              else if even lo then lo else hi)
      | s # _ \<Rightarrow> s
      | [] \<Rightarrow> 0)"

text \<open>
  \<open>(s, k, n)\<close> with \<open>k\<close> as small as possible. A double has a decimal of at most 17
  digits that denotes it, and \<open>n\<close> is the number of digits of \<open>x\<close> or one more (as for the
  double nearest to \<open>10\<^sup>2\<^sup>3\<close>, printed \<^verbatim>\<open>1e+23\<close>).
\<close>

definition shortest_digits :: "nat \<Rightarrow> nat \<times> nat \<times> nat" where
  "shortest_digits x =
     (let d = length (decimal_digits x)
      in case List.find (\<lambda>(k, n). digit_candidates x k n \<noteq> [])
                (concat (map (\<lambda>k. [(k, d), (k, d + 1)]) [1..<18])) of
           Some (k, n) \<Rightarrow> (closest_candidate x k n (digit_candidates x k n), k, n)
         | None \<Rightarrow> (x, d, d))"

definition double_text :: "nat \<Rightarrow> js_string" where
  "double_text x =
     (if x < 2 ^ 53 then decimal_digits x
      else
        (case shortest_digits x of
           (s, k, n) \<Rightarrow>
             if n \<le> 21 then decimal_digits s @ replicate (n - k) 0x30
             else if k = 1 then decimal_digits s @ js ''e+'' @ decimal_digits (n - 1)
             else hd (decimal_digits s) # js ''.'' @ tl (decimal_digits s) @ js ''e+''
                  @ decimal_digits (n - 1)))"

definition magnitude_text :: "nat \<Rightarrow> js_string" where
  "magnitude_text m =
     (case nearest_double m of None \<Rightarrow> js ''Infinity'' | Some x \<Rightarrow> double_text x)"

definition Number_toString :: "int \<Rightarrow> js_string" where
  "Number_toString n =
     (if n < 0 then 0x2D # magnitude_text (nat (- n)) else magnitude_text (nat n))"

subsection \<open>JSON values and \<^verbatim>\<open>JSON.parse\<close>\<close>

text \<open>
  The value to which \<^verbatim>\<open>response.json()\<close> resolves is built from the ECMA-262 JSON
  grammar. \<open>JNull\<close> is the JavaScript value \<^verbatim>\<open>null\<close>, which is also what the client
  returns from its \<^verbatim>\<open>catch\<close> block. A number keeps the exact value of its literal (the
  platform then rounds it to a double, which leaves integers below \<open>2\<^sup>5\<^sup>3\<close> as they are).
  An object is its list of properties in creation order; defining a key again replaces
  the value in place, as \<^verbatim>\<open>CreateDataProperty\<close> does.
\<close>

datatype json_value =
    JNull
  | JBool bool
  | JNumber rat
  | JString js_string
  | JArray "json_value list"
  | JObject "(js_string \<times> json_value) list"

datatype token =
    LBRACE | RBRACE | LBRACK | RBRACK | COLON | COMMA
  | TNULL | TTRUE | TFALSE
  | TSTR js_string
  | TNUM rat

definition is_whitespace :: "code_unit \<Rightarrow> bool" where
  "is_whitespace c = (c = 0x09 \<or> c = 0x0A \<or> c = 0x0D \<or> c = 0x20)"

definition is_digit :: "code_unit \<Rightarrow> bool" where
  "is_digit c = (0x30 \<le> unat c \<and> unat c \<le> 0x39)"

definition punctuation :: "code_unit \<Rightarrow> token option" where
  "punctuation c =
     (if c = 0x7B then Some LBRACE else if c = 0x7D then Some RBRACE
      else if c = 0x5B then Some LBRACK else if c = 0x5D then Some RBRACK
      else if c = 0x3A then Some COLON else if c = 0x2C then Some COMMA
      else None)"

definition hex_value :: "code_unit \<Rightarrow> nat option" where
  "hex_value c =
     (let n = unat c in
        if 0x30 \<le> n \<and> n \<le> 0x39 then Some (n - 0x30)
        else if 0x41 \<le> n \<and> n \<le> 0x46 then Some (n - 0x41 + 10)
        else if 0x61 \<le> n \<and> n \<le> 0x66 then Some (n - 0x61 + 10)
        else None)"

definition hex4 :: "code_unit \<Rightarrow> code_unit \<Rightarrow> code_unit \<Rightarrow> code_unit \<Rightarrow> code_unit option" where
  "hex4 a b c d =
     (case (hex_value a, hex_value b, hex_value c, hex_value d) of
        (Some p, Some q, Some r, Some s) \<Rightarrow> Some (of_nat (((p * 16 + q) * 16 + r) * 16 + s))
      | _ \<Rightarrow> None)"

text \<open>The single-character escapes \<^verbatim>\<open>\" \\ \/ \b \f \n \r \t\<close>.\<close>

definition simple_escape :: "code_unit \<Rightarrow> code_unit option" where
  "simple_escape e =
     (if e = 0x22 \<or> e = 0x5C \<or> e = 0x2F then Some e
      else if e = 0x62 then Some 0x08 else if e = 0x66 then Some 0x0C
      else if e = 0x6E then Some 0x0A else if e = 0x72 then Some 0x0D
      else if e = 0x74 then Some 0x09 else None)"

text \<open>
  \<open>scan_string\<close> reads a string after its opening quote and returns its code units and
  the text after the closing quote. Control characters below \<open>0x20\<close> are not allowed raw.
\<close>

fun scan_string :: "js_string \<Rightarrow> (js_string \<times> js_string) option" where
  "scan_string [] = None"
| "scan_string (c # cs) =
     (if c = 0x22 then Some ([], cs)
      else if c = 0x5C then
        (case cs of
           [] \<Rightarrow> None
         | e # es \<Rightarrow>
             if e = 0x75 then
               (case es of
                  h1 # h2 # h3 # h4 # rest \<Rightarrow>
                    (case hex4 h1 h2 h3 h4 of
                       None \<Rightarrow> None
                     | Some u \<Rightarrow> map_option (apfst ((#) u)) (scan_string rest))
                | _ \<Rightarrow> None)
             else
               (case simple_escape e of
                  None \<Rightarrow> None
                | Some u \<Rightarrow> map_option (apfst ((#) u)) (scan_string es)))
      else if unat c < 0x20 then None
      else map_option (apfst ((#) c)) (scan_string cs))"

text \<open>
  A number is \<^verbatim>\<open>-? (0 | [1-9][0-9]*) (. [0-9]+)? ([eE] [+-]? [0-9]+)?\<close>.
\<close>

definition digits_value :: "js_string \<Rightarrow> nat" where
  "digits_value ds = foldl (\<lambda>a c. 10 * a + (unat c - 0x30)) 0 ds"

definition scan_sign :: "js_string \<Rightarrow> bool \<times> js_string" where
  "scan_sign cs = (case cs of c # r \<Rightarrow> if c = 0x2D then (True, r) else (False, cs) | [] \<Rightarrow> (False, []))"

definition scan_int_part :: "js_string \<Rightarrow> js_string" where
  "scan_int_part cs =
     (case cs of c # r \<Rightarrow> if c = 0x30 then [c] else takeWhile is_digit cs | [] \<Rightarrow> [])"

definition scan_fraction :: "js_string \<Rightarrow> (js_string \<times> js_string) option" where
  "scan_fraction cs =
     (case cs of
        c # r \<Rightarrow>
          if c = 0x2E then
            (let fp = takeWhile is_digit r
             in if fp = [] then None else Some (fp, drop (length fp) r))
          else Some ([], cs)
      | [] \<Rightarrow> Some ([], []))"

definition scan_exponent :: "js_string \<Rightarrow> (int \<times> js_string) option" where
  "scan_exponent cs =
     (case cs of
        c # r \<Rightarrow>
          if c = 0x65 \<or> c = 0x45 then
            (let (neg, r') =
                   (case r of
                      s # t \<Rightarrow> if s = 0x2D then (True, t) else if s = 0x2B then (False, t) else (False, r)
                    | [] \<Rightarrow> (False, []));
                 ep = takeWhile is_digit r'
             in if ep = [] then None
                else Some ((if neg then - int (digits_value ep) else int (digits_value ep)),
                           drop (length ep) r'))
          else Some (0, cs)
      | [] \<Rightarrow> Some (0, []))"

definition scale10 :: "rat \<Rightarrow> int \<Rightarrow> rat" where
  "scale10 x e = (if 0 \<le> e then x * 10 ^ nat e else x / 10 ^ nat (- e))"

definition scan_number :: "js_string \<Rightarrow> (rat \<times> js_string) option" where
  "scan_number cs =
     (let (neg, cs1) = scan_sign cs;
          ip = scan_int_part cs1
      in if ip = [] then None
         else
           (case scan_fraction (drop (length ip) cs1) of
              None \<Rightarrow> None
            | Some (fp, cs3) \<Rightarrow>
                (case scan_exponent cs3 of
                   None \<Rightarrow> None
                 | Some (e, rest) \<Rightarrow>
                     (let m = of_nat (digits_value (ip @ fp)) / 10 ^ length fp
                      in Some (scale10 (if neg then - m else m) e, rest)))))"

text \<open>
  \<open>lex\<close> cuts the text into tokens, skipping the four JSON whitespace characters;
  \<open>None\<close> is a text that is not a sequence of JSON tokens.
\<close>

function lex :: "js_string \<Rightarrow> token list option" where
  "lex [] = Some []"
| "lex (c # cs) =
     (if is_whitespace c then lex cs
      else if punctuation c \<noteq> None then map_option ((#) (the (punctuation c))) (lex cs)
      else if c = 0x22 then
        (case scan_string cs of
           None \<Rightarrow> None
         | Some (s, rest) \<Rightarrow> map_option ((#) (TSTR s)) (lex rest))
      else if c = 0x2D \<or> is_digit c then
        (case scan_number (c # cs) of
           None \<Rightarrow> None
         | Some (r, rest) \<Rightarrow> map_option ((#) (TNUM r)) (lex rest))
      else if take 4 (c # cs) = js ''null'' then map_option ((#) TNULL) (lex (drop 3 cs))
      else if take 4 (c # cs) = js ''true'' then map_option ((#) TTRUE) (lex (drop 3 cs))
      else if take 5 (c # cs) = js ''false'' then map_option ((#) TFALSE) (lex (drop 4 cs))
      else None)"
  by pat_completeness auto
termination
proof -
  have str: "length rest \<le> length cs" if "scan_string cs = Some (s, rest)" for cs s rest
    using that
  proof (induction cs arbitrary: s rest rule: scan_string.induct)
    case 1
    then show ?case by simp
  next
    case (2 c cs)
    then show ?case
      by (fastforce split: if_splits list.splits option.splits)
  qed
  have sign: "length cs1 \<le> length cs" if "scan_sign cs = (neg, cs1)" for cs neg cs1
    using that by (auto simp: scan_sign_def split: list.splits if_splits)
  have ipart: "length (drop (length (scan_int_part cs)) cs) < length cs"
    if "scan_int_part cs \<noteq> []" for cs
    using that by (cases cs) (auto simp: scan_int_part_def split: if_splits)
  have frac: "length r \<le> length cs" if "scan_fraction cs = Some (fp, r)" for cs fp r
    using that by (auto simp: scan_fraction_def Let_def split: list.splits if_splits)
  have expo: "length r \<le> length cs" if "scan_exponent cs = Some (e, r)" for cs e r
    using that
    by (auto simp: scan_exponent_def Let_def split: list.splits if_splits prod.splits)
  have num: "length rest < length cs" if n: "scan_number cs = Some (r, rest)" for cs r rest
  proof -
    obtain neg cs1 where s: "scan_sign cs = (neg, cs1)"
      by (cases "scan_sign cs")
    let ?ip = "scan_int_part cs1"
    from n s have ip: "?ip \<noteq> []"
      by (auto simp: scan_number_def Let_def split: if_splits)
    from n s ip obtain fp cs3
      where f: "scan_fraction (drop (length ?ip) cs1) = Some (fp, cs3)"
      by (auto simp: scan_number_def Let_def split: option.splits)
    from n s ip f obtain e where x: "scan_exponent cs3 = Some (e, rest)"
      by (auto simp: scan_number_def Let_def split: option.splits)
    have "length rest \<le> length cs3" using x by (rule expo)
    also have "\<dots> \<le> length (drop (length ?ip) cs1)" using f by (rule frac)
    also have "\<dots> < length cs1" using ip by (rule ipart)
    also have "\<dots> \<le> length cs" using s by (rule sign)
    finally show ?thesis .
  qed
  show ?thesis
    by (relation "measure length") (auto dest: str num)
qed

text \<open>
  The parser is a pushdown automaton over the tokens. A frame of the stack is an array
  or an object under construction; an object frame also holds the key whose value is
  being read.
\<close>

datatype frame =
    InArray "json_value list"
  | InObject "(js_string \<times> json_value) list" js_string

datatype parser_state =
    Expect_value "frame list"
  | Array_open "frame list"
  | Object_open "frame list"
  | Expect_key "(js_string \<times> json_value) list" "frame list"
  | Expect_colon "(js_string \<times> json_value) list" js_string "frame list"
  | Got_value json_value "frame list"

definition begin_value :: "frame list \<Rightarrow> token \<Rightarrow> parser_state option" where
  "begin_value stk t =
     (case t of
        TNULL \<Rightarrow> Some (Got_value JNull stk)
      | TTRUE \<Rightarrow> Some (Got_value (JBool True) stk)
      | TFALSE \<Rightarrow> Some (Got_value (JBool False) stk)
      | TSTR s \<Rightarrow> Some (Got_value (JString s) stk)
      | TNUM r \<Rightarrow> Some (Got_value (JNumber r) stk)
      | LBRACK \<Rightarrow> Some (Array_open stk)
      | LBRACE \<Rightarrow> Some (Object_open stk)
      | _ \<Rightarrow> None)"

fun parser_step :: "parser_state \<Rightarrow> token \<Rightarrow> parser_state option" where
  "parser_step (Expect_value stk) t = begin_value stk t"
| "parser_step (Array_open stk) t =
     (if t = RBRACK then Some (Got_value (JArray []) stk)
      else begin_value (InArray [] # stk) t)"
| "parser_step (Object_open stk) t =
     (case t of
        RBRACE \<Rightarrow> Some (Got_value (JObject []) stk)
      | TSTR k \<Rightarrow> Some (Expect_colon [] k stk)
      | _ \<Rightarrow> None)"
| "parser_step (Expect_key ms stk) t =
     (case t of TSTR k \<Rightarrow> Some (Expect_colon ms k stk) | _ \<Rightarrow> None)"
| "parser_step (Expect_colon ms k stk) t =
     (if t = COLON then Some (Expect_value (InObject ms k # stk)) else None)"
| "parser_step (Got_value v []) t = None"
| "parser_step (Got_value v (InArray es # stk)) t =
     (if t = COMMA then Some (Expect_value (InArray (es @ [v]) # stk))
      else if t = RBRACK then Some (Got_value (JArray (es @ [v])) stk)
      else None)"
| "parser_step (Got_value v (InObject ms k # stk)) t =
     (if t = COMMA then Some (Expect_key (AList.update k v ms) stk)
      else if t = RBRACE then Some (Got_value (JObject (AList.update k v ms)) stk)
      else None)"

fun parse_tokens :: "parser_state \<Rightarrow> token list \<Rightarrow> json_value option" where
  "parse_tokens st [] = (case st of Got_value v [] \<Rightarrow> Some v | _ \<Rightarrow> None)"
| "parse_tokens st (t # ts) =
     (case parser_step st t of None \<Rightarrow> None | Some st' \<Rightarrow> parse_tokens st' ts)"

definition JSON_parse :: "js_string \<Rightarrow> js_error + json_value" where
  "JSON_parse text =
     (case lex text of
        None \<Rightarrow> Inl SyntaxError
      | Some ts \<Rightarrow>
          (case parse_tokens (Expect_value []) ts of
             None \<Rightarrow> Inl SyntaxError
           | Some v \<Rightarrow> Inr v))"

subsection \<open>\<^verbatim>\<open>fetch\<close>, \<^verbatim>\<open>Response\<close> and the console\<close>

text \<open>
  \<^verbatim>\<open>fetch(url)\<close> with no second argument issues a \<^verbatim>\<open>GET\<close> request. The promise it returns
  is rejected on a transport failure and otherwise fulfilled with a \<^verbatim>\<open>Response\<close>, of which
  the client reads the property \<^verbatim>\<open>ok\<close> and calls the method \<^verbatim>\<open>json()\<close>. A response
  carries what the promise of \<^verbatim>\<open>json()\<close> settles to (\<open>Inl\<close> when it is rejected).
\<close>

datatype http_method = GET | HEAD | POST | PUT | DELETE

record request =
  request_method :: http_method
  request_url :: js_string

record response =
  ok :: bool
  json_outcome :: "js_error + json_value"

text \<open>
  The \<^verbatim>\<open>Response\<close> of the Fetch standard for a status code and a body text: \<^verbatim>\<open>ok\<close> is
  true for the statuses 200 to 299, and \<^verbatim>\<open>json()\<close> parses the body text.
\<close>

definition http_response :: "nat \<Rightarrow> js_string \<Rightarrow> response" where
  "http_response status body =
     \<lparr>ok = (200 \<le> status \<and> status \<le> 299), json_outcome = JSON_parse body\<rparr>"

text \<open>
  The backend and the transport are outside the repository: a \<open>network\<close> says how each
  request ends. The effects of the client are the requests it issues, the errors it
  hands to \<^verbatim>\<open>console.error\<close>, and its calls of \<^verbatim>\<open>json()\<close>, which read and decode a body.
\<close>

type_synonym network = "request \<Rightarrow> js_error + response"

record browser =
  requests :: "request list"
  console :: "js_error list"
  json_calls :: nat

text \<open>
  A JavaScript computation changes the browser state and either completes with a value
  (\<open>Inr\<close>) or throws (\<open>Inl\<close>); for an \<^verbatim>\<open>async\<close> function these are the fulfilment and the
  rejection of its promise.
\<close>

type_synonym 'a js = "browser \<Rightarrow> (js_error + 'a) \<times> browser"

definition js_return :: "'a \<Rightarrow> 'a js" where
  "js_return x w = (Inr x, w)"

definition js_throw :: "js_error \<Rightarrow> 'a js" where
  "js_throw e w = (Inl e, w)"

definition js_eval :: "js_error + 'a \<Rightarrow> 'a js" where
  "js_eval r w = (r, w)"

definition js_bind :: "'a js \<Rightarrow> ('a \<Rightarrow> 'b js) \<Rightarrow> 'b js" where
  "js_bind m f w = (case m w of (Inl e, w') \<Rightarrow> (Inl e, w') | (Inr x, w') \<Rightarrow> f x w')"

definition try_catch :: "'a js \<Rightarrow> (js_error \<Rightarrow> 'a js) \<Rightarrow> 'a js" where
  "try_catch body handler w =
     (case body w of (Inl e, w') \<Rightarrow> handler e w' | (Inr x, w') \<Rightarrow> (Inr x, w'))"

definition fetch :: "network \<Rightarrow> js_string \<Rightarrow> response js" where
  "fetch net u w =
     (let rq = \<lparr>request_method = GET, request_url = u\<rparr>
      in (net rq, w\<lparr>requests := requests w @ [rq]\<rparr>))"

definition json :: "response \<Rightarrow> json_value js" where
  "json response w = (json_outcome response, w\<lparr>json_calls := json_calls w + 1\<rparr>)"

definition console_error :: "js_error \<Rightarrow> unit js" where
  "console_error e w = (Inr (), w\<lparr>console := console w @ [e]\<rparr>)"

text \<open>A parameter with a default value takes it when the argument is omitted.\<close>

definition default_arg :: "'a \<Rightarrow> 'a option \<Rightarrow> 'a" where
  "default_arg d a = (case a of None \<Rightarrow> d | Some x \<Rightarrow> x)"

section \<open>The client\<close>


definition API_URL :: js_string where
  "API_URL = js ''http://127.0.0.1:5000/api''"

text \<open>
  The three template literals. Evaluating one calls \<^verbatim>\<open>encodeURIComponent(state)\<close>, which
  may throw.
\<close>

definition stats_url :: "js_string \<Rightarrow> int \<Rightarrow> int \<Rightarrow> js_error + js_string" where
  "stats_url state minYear maxYear =
     map_sum id
       (\<lambda>enc. API_URL @ js ''/stats?state='' @ enc @ js ''&min_year='' @ Number_toString minYear
               @ js ''&max_year='' @ Number_toString maxYear)
       (encodeURIComponent state)"

definition trend_url :: "js_string \<Rightarrow> js_error + js_string" where
  "trend_url state =
     map_sum id (\<lambda>enc. API_URL @ js ''/chart/trend?state='' @ enc) (encodeURIComponent state)"

definition predict_url :: "js_string \<Rightarrow> int \<Rightarrow> js_error + js_string" where
  "predict_url state targetYear =
     map_sum id
       (\<lambda>enc. API_URL @ js ''/predict?state='' @ enc @ js ''&target_year=''
               @ Number_toString targetYear)
       (encodeURIComponent state)"

text \<open>
  \<^verbatim>\<open>async getStats(state = 'all', minYear = 2017, maxYear = 2023)\<close>: the URL is built inside
  the \<^verbatim>\<open>try\<close> block, so the \<^verbatim>\<open>catch\<close> block also receives what building it throws.
\<close>

definition getStats ::
  "network \<Rightarrow> js_string option \<Rightarrow> int option \<Rightarrow> int option \<Rightarrow> json_value js" where
  "getStats net state minYear maxYear =
     try_catch
       (js_bind (js_eval (stats_url (default_arg (js ''all'') state)
                            (default_arg 2017 minYear) (default_arg 2023 maxYear)))
          (\<lambda>u. js_bind (fetch net u)
            (\<lambda>response.
               if \<not> ok response then js_throw (Error (js ''API Error fetching stats''))
               else json response)))
       (\<lambda>error. js_bind (console_error error) (\<lambda>_. js_return JNull))"

text \<open>\<^verbatim>\<open>async getTrend(state = 'all')\<close>\<close>

definition getTrend :: "network \<Rightarrow> js_string option \<Rightarrow> json_value js" where
  "getTrend net state =
     try_catch
       (js_bind (js_eval (trend_url (default_arg (js ''all'') state)))
          (\<lambda>u. js_bind (fetch net u)
            (\<lambda>response.
               if \<not> ok response then js_throw (Error (js ''API Error fetching trend data''))
               else json response)))
       (\<lambda>error. js_bind (console_error error) (\<lambda>_. js_return JNull))"

text \<open>\<^verbatim>\<open>async getPrediction(state = 'all', targetYear = 2024)\<close>\<close>

definition getPrediction :: "network \<Rightarrow> js_string option \<Rightarrow> int option \<Rightarrow> json_value js" where
  "getPrediction net state targetYear =
     try_catch
       (js_bind (js_eval (predict_url (default_arg (js ''all'') state)
                            (default_arg 2024 targetYear)))
          (\<lambda>u. js_bind (fetch net u)
            (\<lambda>response.
               if \<not> ok response then js_throw (Error (js ''API Error fetching prediction''))
               else json response)))
       (\<lambda>error. js_bind (console_error error) (\<lambda>_. js_return JNull))"

section \<open>Vocabulary of the properties\<close>

text \<open>The request that \<^verbatim>\<open>fetch(u)\<close> issues.\<close>

definition get_request :: "js_string \<Rightarrow> request" where
  "get_request u = \<lparr>request_method = GET, request_url = u\<rparr>"

text \<open>
  The URL each method builds from its arguments, defaults applied (\<open>Inl\<close> when building it
  throws).
\<close>

abbreviation stats_target ::
  "js_string option \<Rightarrow> int option \<Rightarrow> int option \<Rightarrow> js_error + js_string" where
  "stats_target state minYear maxYear \<equiv>
     stats_url (default_arg (js ''all'') state) (default_arg 2017 minYear)
       (default_arg 2023 maxYear)"

abbreviation trend_target :: "js_string option \<Rightarrow> js_error + js_string" where
  "trend_target state \<equiv> trend_url (default_arg (js ''all'') state)"

abbreviation predict_target :: "js_string option \<Rightarrow> int option \<Rightarrow> js_error + js_string" where
  "predict_target state targetYear \<equiv>
     predict_url (default_arg (js ''all'') state) (default_arg 2024 targetYear)"

text \<open>
  The characters that ECMA-262 lets \<^verbatim>\<open>encodeURIComponent\<close> copy, listed: the letters, the
  digits and \<^verbatim>\<open>- _ . ! ~ * ( )\<close> with the apostrophe.
\<close>

definition uri_unreserved :: js_string where
  "uri_unreserved =
     js ''ABCDEFGHIJKLMNOPQRSTUVWXYZabcdefghijklmnopqrstuvwxyz0123456789-_.!~*()'' @ [0x27]"

text \<open>
  A percent-encoded text consists of unreserved characters and of escapes \<^verbatim>\<open>%XX\<close> with two
  upper-case hexadecimal digits.
\<close>

definition is_upper_hex :: "code_unit \<Rightarrow> bool" where
  "is_upper_hex c =
     ((0x30 \<le> unat c \<and> unat c \<le> 0x39) \<or> (0x41 \<le> unat c \<and> unat c \<le> 0x46))"

fun percent_encoded :: "js_string \<Rightarrow> bool" where
  "percent_encoded [] = True"
| "percent_encoded (c # cs) =
     (if c = 0x25 then
        (case cs of
           h1 # h2 # rest \<Rightarrow> is_upper_hex h1 \<and> is_upper_hex h2 \<and> percent_encoded rest
         | _ \<Rightarrow> False)
      else unescaped c \<and> percent_encoded cs)"

text \<open>
  Backends for concrete runs: one that answers every request with the same status and
  body, and a transport that refuses every connection; and a browser in which nothing
  has happened yet.
\<close>

definition stub_backend :: "nat \<Rightarrow> js_string \<Rightarrow> network" where
  "stub_backend status body rq = Inr (http_response status body)"

definition connection_refused :: network where
  "connection_refused rq = Inl (TypeError (js ''Failed to fetch''))"

definition fresh :: browser where
  "fresh = \<lparr>requests = [], console = [], json_calls = 0\<rparr>"

text \<open>
  \<^verbatim>\<open>decodeURIComponent\<close> (ECMA-262, \<^verbatim>\<open>Decode\<close> with nothing preserved), with which a server
  reads a query value back: an escape \<^verbatim>\<open>%XX\<close> below \<open>0x80\<close> is that character; a lead
  octet announces by its leading one bits how many octets follow, each as an escape;
  the octets must be the UTF-8 encoding of a code point (no overlong form, no
  surrogate, at most \<open>0x10FFFF\<close>), which is written as one or two code units.
\<close>

definition hex_octet :: "code_unit \<Rightarrow> code_unit \<Rightarrow> nat option" where
  "hex_octet h l =
     (case (hex_value h, hex_value l) of (Some a, Some b) \<Rightarrow> Some (a * 16 + b) | _ \<Rightarrow> None)"

definition leading_ones :: "nat \<Rightarrow> nat" where
  "leading_ones b =
     (if b < 0x80 then 0 else if b < 0xC0 then 1 else if b < 0xE0 then 2
      else if b < 0xF0 then 3 else if b < 0xF8 then 4 else if b < 0xFC then 5
      else if b < 0xFE then 6 else if b < 0xFF then 7 else 8)"

fun continuation_octets :: "nat \<Rightarrow> js_string \<Rightarrow> (nat list \<times> js_string) option" where
  "continuation_octets 0 cs = Some ([], cs)"
| "continuation_octets (Suc k) (p # h # l # cs) =
     (if p = 0x25 then
        (case hex_octet h l of
           None \<Rightarrow> None
         | Some b \<Rightarrow> map_option (apfst ((#) b)) (continuation_octets k cs))
      else None)"
| "continuation_octets (Suc k) cs = None"

definition is_continuation :: "nat \<Rightarrow> bool" where
  "is_continuation b = (0x80 \<le> b \<and> b < 0xC0)"

definition utf8_code_point :: "nat list \<Rightarrow> nat option" where
  "utf8_code_point octets =
     (case octets of
        [b0, b1] \<Rightarrow>
          (let cp = (b0 - 0xC0) * 0x40 + (b1 - 0x80)
           in if is_continuation b1 \<and> 0x80 \<le> cp then Some cp else None)
      | [b0, b1, b2] \<Rightarrow>
          (let cp = (b0 - 0xE0) * 0x1000 + (b1 - 0x80) * 0x40 + (b2 - 0x80)
           in if is_continuation b1 \<and> is_continuation b2 \<and> 0x800 \<le> cp
                 \<and> \<not> (0xD800 \<le> cp \<and> cp \<le> 0xDFFF)
              then Some cp else None)
      | [b0, b1, b2, b3] \<Rightarrow>
          (let cp = (b0 - 0xF0) * 0x40000 + (b1 - 0x80) * 0x1000 + (b2 - 0x80) * 0x40 + (b3 - 0x80)
           in if is_continuation b1 \<and> is_continuation b2 \<and> is_continuation b3
                 \<and> 0x10000 \<le> cp \<and> cp \<le> 0x10FFFF
              then Some cp else None)
      | _ \<Rightarrow> None)"

definition UTF16EncodeCodePoint :: "nat \<Rightarrow> js_string" where
  "UTF16EncodeCodePoint cp =
     (if cp \<le> 0xFFFF then [of_nat cp]
      else [of_nat ((cp - 0x10000) div 0x400 + 0xD800),
            of_nat ((cp - 0x10000) mod 0x400 + 0xDC00)])"

function decodeURIComponent :: "js_string \<Rightarrow> js_error + js_string" where
  "decodeURIComponent [] = Inr []"
| "decodeURIComponent (c # cs) =
     (if c \<noteq> 0x25 then map_sum id ((#) c) (decodeURIComponent cs)
      else
        (case cs of
           h # l # rest \<Rightarrow>
             (case hex_octet h l of
                None \<Rightarrow> Inl URIError
              | Some b \<Rightarrow>
                  if leading_ones b = 0
                  then map_sum id ((#) (of_nat b)) (decodeURIComponent rest)
                  else if leading_ones b = 1 \<or> 4 < leading_ones b then Inl URIError
                  else
                    (case continuation_octets (leading_ones b - 1) rest of
                       None \<Rightarrow> Inl URIError
                     | Some (bs, rest') \<Rightarrow>
                         (case utf8_code_point (b # bs) of
                            None \<Rightarrow> Inl URIError
                          | Some cp \<Rightarrow>
                              map_sum id ((@) (UTF16EncodeCodePoint cp))
                                (decodeURIComponent rest'))))
         | _ \<Rightarrow> Inl URIError))"
  by pat_completeness auto
termination
proof -
  have shorter: "length rest \<le> length cs"
    if "continuation_octets k cs = Some (bs, rest)" for k cs bs rest
    using that
  proof (induction k cs arbitrary: bs rest rule: continuation_octets.induct)
    case (2 k p h l cs)
    then show ?case
      by (fastforce split: if_splits option.splits)
  qed simp_all
  show ?thesis
    by (relation "measure length") (auto dest: shorter)
qed

text \<open>The code points that UTF-8 encodes: up to \<open>0x10FFFF\<close>, surrogates excluded.\<close>

definition scalar_value :: "nat \<Rightarrow> bool" where
  "scalar_value cp = (cp < 0x110000 \<and> \<not> (0xD800 \<le> cp \<and> cp \<le> 0xDFFF))"

section \<open>What one call does\<close>

lemmas js_defs =
  js_return_def js_throw_def js_eval_def js_bind_def try_catch_def fetch_def json_def
  console_error_def

text \<open>
  The body shared by the three methods, in closed form: the four ways the \<^verbatim>\<open>try\<close> block
  can throw, each ending in the \<^verbatim>\<open>catch\<close> block, and the one way it returns.
\<close>

lemma try_block_outcome:
  "try_catch
     (js_bind (js_eval ur)
        (\<lambda>u. js_bind (fetch net u)
          (\<lambda>response. if \<not> ok response then js_throw (Error msg) else json response)))
     (\<lambda>error. js_bind (console_error error) (\<lambda>_. js_return JNull)) w =
   (case ur of
      Inl e \<Rightarrow> (Inr JNull, w\<lparr>console := console w @ [e]\<rparr>)
    | Inr u \<Rightarrow>
        (case net (get_request u) of
           Inl e \<Rightarrow>
             (Inr JNull,
              w\<lparr>requests := requests w @ [get_request u], console := console w @ [e]\<rparr>)
         | Inr r \<Rightarrow>
             if ok r then
               (case json_outcome r of
                  Inl e \<Rightarrow>
                    (Inr JNull,
                     w\<lparr>requests := requests w @ [get_request u], console := console w @ [e],
                       json_calls := json_calls w + 1\<rparr>)
                | Inr v \<Rightarrow>
                    (Inr v,
                     w\<lparr>requests := requests w @ [get_request u],
                       json_calls := json_calls w + 1\<rparr>))
             else
               (Inr JNull,
                w\<lparr>requests := requests w @ [get_request u],
                  console := console w @ [Error msg]\<rparr>)))"
  by (simp add: js_defs get_request_def Let_def split: sum.splits)

lemmas getStats_outcome =
  try_block_outcome [of "stats_target state minYear maxYear" net
    "js ''API Error fetching stats''" w, folded getStats_def]
  for net state minYear maxYear w

lemmas getTrend_outcome =
  try_block_outcome [of "trend_target state" net
    "js ''API Error fetching trend data''" w, folded getTrend_def]
  for net state w

lemmas getPrediction_outcome =
  try_block_outcome [of "predict_target state targetYear" net
    "js ''API Error fetching prediction''" w, folded getPrediction_def]
  for net state targetYear w

lemmas outcomes = getStats_outcome getTrend_outcome getPrediction_outcome

text \<open>Rules that evaluate a URL, and a JSON text, on concrete input.\<close>

lemmas url_eval =
  stats_url_def trend_url_def predict_url_def API_URL_def js_def Number_toString_def
  magnitude_text_def nearest_double_def double_text_def
  decimal_digits.simps unescaped_def default_arg_def
  is_leading_surrogate_def is_trailing_surrogate_def escape_code_point_def utf8_octets_def
  percent_escape_def hex_digit_def

lemmas json_eval =
  JSON_parse_def js_def is_whitespace_def punctuation_def is_digit_def scan_number_def
  scan_sign_def scan_int_part_def scan_fraction_def scan_exponent_def scale10_def
  digits_value_def begin_value_def

lemma http_response_simps [simp]:
  "ok (http_response status body) = (200 \<le> status \<and> status \<le> 299)"
  "json_outcome (http_response status body) = JSON_parse body"
  by (simp_all add: http_response_def)

text \<open>An equation for evaluating \<open>continuation_octets\<close> with machine integers.\<close>

lemma continuation_octets_code [code]:
  "continuation_octets k cs =
     (if k = 0 then Some ([], cs)
      else
        (case cs of
           p # h # l # rest \<Rightarrow>
             if p = 0x25 then
               (case hex_octet h l of
                  None \<Rightarrow> None
                | Some b \<Rightarrow> map_option (apfst ((#) b)) (continuation_octets (k - 1) rest))
             else None
         | _ \<Rightarrow> None))"
  by (cases k) (auto split: list.splits option.splits)

lemma default_stats_target:
  "stats_target None None None =
     Inr (js ''http://127.0.0.1:5000/api/stats?state=all&min_year=2017&max_year=2023'')"
  by (simp add: url_eval)

lemma default_trend_target:
  "trend_target None = Inr (js ''http://127.0.0.1:5000/api/chart/trend?state=all'')"
  by (simp add: url_eval)

lemma default_predict_target:
  "predict_target None None =
     Inr (js ''http://127.0.0.1:5000/api/predict?state=all&target_year=2024'')"
  by (simp add: url_eval)

lemma lone_surrogate_target: "stats_target (Some [0xD800]) None None = Inl URIError"
  by (simp add: stats_url_def default_arg_def unescaped_def is_leading_surrogate_def)

lemma predict_target_CA_2025:
  "predict_target (Some (js ''CA'')) (Some 2025) =
     Inr (js ''http://127.0.0.1:5000/api/predict?state=CA&target_year=2025'')"
  by (simp add: url_eval)

lemma New_York_encoded: "encodeURIComponent (js ''New York'') = Inr (js ''New%20York'')"
  by (simp add: url_eval)

lemma JSON_parse_total_123:
  \<open>JSON_parse (js ''{"total":123}'') = Inr (JObject [(js ''total'', JNumber 123)])\<close>
  by (simp add: json_eval)

lemma JSON_parse_prediction:
  \<open>JSON_parse (js ''{"year":2025,"predicted":4200}'') =
     Inr (JObject [(js ''year'', JNumber 2025), (js ''predicted'', JNumber 4200)])\<close>
  by (simp add: json_eval)

lemma JSON_parse_null: "JSON_parse (js ''null'') = Inr JNull"
  by (simp add: json_eval)

lemma JSON_parse_html: "JSON_parse (js ''<html>Bad Gateway</html>'') = Inl SyntaxError"
  by (simp add: json_eval)

text \<open>The requests a call adds: one when the URL could be built, none when it could not.\<close>

lemma requests_getStats:
  "requests (snd (getStats net state minYear maxYear w)) =
     requests w
     @ (case stats_target state minYear maxYear of Inl e \<Rightarrow> [] | Inr u \<Rightarrow> [get_request u])"
  by (simp add: getStats_outcome split: sum.splits)

lemma requests_getTrend:
  "requests (snd (getTrend net state w)) =
     requests w @ (case trend_target state of Inl e \<Rightarrow> [] | Inr u \<Rightarrow> [get_request u])"
  by (simp add: getTrend_outcome split: sum.splits)

lemma requests_getPrediction:
  "requests (snd (getPrediction net state targetYear w)) =
     requests w
     @ (case predict_target state targetYear of Inl e \<Rightarrow> [] | Inr u \<Rightarrow> [get_request u])"
  by (simp add: getPrediction_outcome split: sum.splits)

lemmas requests_after = requests_getStats requests_getTrend requests_getPrediction

subsection \<open>The output of \<^verbatim>\<open>encodeURIComponent\<close> is percent-encoded\<close>

lemma unescaped_not_percent: "unescaped c \<Longrightarrow> c \<noteq> 0x25"
  by (auto simp: unescaped_def)

lemma unat_small: "n < 65536 \<Longrightarrow> unat (of_nat n :: code_unit) = n"
  by (rule of_nat_inverse) simp_all

lemma hex_digit_upper:
  assumes "d < 16"
  shows "is_upper_hex (hex_digit d)"
proof (cases "d < 10")
  case True
  then have "unat (hex_digit d) = 0x30 + d"
    unfolding hex_digit_def by (simp only: if_True) (rule unat_small, simp)
  with True show ?thesis by (simp add: is_upper_hex_def)
next
  case False
  then have "unat (hex_digit d) = 0x41 + (d - 10)"
    unfolding hex_digit_def using assms by (simp only: if_False) (rule unat_small, simp)
  with False assms show ?thesis by (simp add: is_upper_hex_def)
qed

lemma percent_encoded_escape:
  "octet < 256 \<Longrightarrow> percent_encoded (percent_escape octet @ rest) = percent_encoded rest"
  by (simp add: percent_escape_def hex_digit_upper less_mult_imp_div_less)

lemma percent_encoded_escapes:
  "\<forall>octet\<in>set octets. octet < 256 \<Longrightarrow>
   percent_encoded (concat (map percent_escape octets) @ rest) = percent_encoded rest"
  by (induction octets) (simp_all add: percent_encoded_escape)

lemma utf8_octets_bytes: "cp < 0x110000 \<Longrightarrow> \<forall>octet\<in>set (utf8_octets cp). octet < 256"
  by (auto simp: utf8_octets_def)

lemma percent_encoded_code_point:
  "cp < 0x110000 \<Longrightarrow> percent_encoded (escape_code_point cp @ rest) = percent_encoded rest"
  unfolding escape_code_point_def by (rule percent_encoded_escapes) (rule utf8_octets_bytes)

lemma surrogate_pair_bound:
  "is_leading_surrogate c \<Longrightarrow> is_trailing_surrogate d \<Longrightarrow>
   surrogate_pair_to_code_point c d < 0x110000"
  by (auto simp: is_leading_surrogate_def is_trailing_surrogate_def surrogate_pair_to_code_point_def)

lemma code_unit_bound: "unat (c :: code_unit) < 0x110000"
  using unsigned_less [of c, where ?'a = nat] by simp

lemma encodeURIComponent_percent_encoded:
  "encodeURIComponent s = Inr enc \<Longrightarrow> percent_encoded enc"
proof (induction s arbitrary: enc rule: encodeURIComponent.induct)
  case 1
  then show ?case by simp
next
  case (2 c cs)
  show ?case
  proof (cases "unescaped c")
    case True
    with "2.prems" obtain enc' where "encodeURIComponent cs = Inr enc'" "enc = c # enc'"
      by (cases "encodeURIComponent cs") auto
    with True "2.IH"(1) show ?thesis
      by (simp add: unescaped_not_percent)
  next
    case False
    note esc = False
    show ?thesis
    proof (cases "is_leading_surrogate c")
      case True
      with esc "2.prems" obtain d ds where cs: "cs = d # ds" and tr: "is_trailing_surrogate d"
        by (cases cs) (auto split: if_splits)
      with esc True "2.prems" obtain enc' where
        e: "encodeURIComponent ds = Inr enc'"
           "enc = escape_code_point (surrogate_pair_to_code_point c d) @ enc'"
        by (cases "encodeURIComponent ds") auto
      from "2.IH"(2) [OF esc True cs tr e(1)] have "percent_encoded enc'" .
      with e(2) True tr show ?thesis
        by (simp add: percent_encoded_code_point surrogate_pair_bound)
    next
      case False
      with esc "2.prems" have nt: "\<not> is_trailing_surrogate c"
        by (auto split: if_splits)
      with esc False "2.prems" obtain enc' where
        e: "encodeURIComponent cs = Inr enc'" "enc = escape_code_point (unat c) @ enc'"
        by (cases "encodeURIComponent cs") auto
      from "2.IH"(3) [OF esc False nt e(1)] have "percent_encoded enc'" .
      with e(2) show ?thesis
        by (simp add: percent_encoded_code_point code_unit_bound)
    qed
  qed
qed

lemma percent_encoded_chars:
  "percent_encoded enc \<Longrightarrow> c \<in> set enc \<Longrightarrow> unescaped c \<or> c = 0x25 \<or> is_upper_hex c"
proof (induction enc rule: percent_encoded.induct)
  case 1
  then show ?case by simp
next
  case (2 x xs)
  then show ?case
    by (auto split: if_splits list.splits)
qed

lemma percent_encoded_no_space_ampersand:
  "percent_encoded enc \<Longrightarrow> 0x20 \<notin> set enc \<and> 0x26 \<notin> set enc"
  using percent_encoded_chars [of enc "0x20"] percent_encoded_chars [of enc "0x26"]
  by (auto simp: unescaped_def is_upper_hex_def)


subsection \<open>The alphabet of the output\<close>

lemma unescaped_iff_unreserved: "unescaped c \<longleftrightarrow> c \<in> set uri_unreserved"
proof
  assume "unescaped c"
  then have "unat c \<in> {0x41..<0x5B} \<union> {0x61..<0x7B} \<union> {0x30..<0x3A}
      \<union> {0x2D, 0x5F, 0x2E, 0x21, 0x7E, 0x2A, 0x27, 0x28, 0x29}"
    by (auto simp: unescaped_def Let_def)
  then have "of_nat (unat c) \<in> (of_nat ` ({0x41..<0x5B} \<union> {0x61..<0x7B} \<union> {0x30..<0x3A}
      \<union> {0x2D, 0x5F, 0x2E, 0x21, 0x7E, 0x2A, 0x27, 0x28, 0x29}) :: code_unit set)"
    by (rule imageI)
  then have "c \<in> (of_nat ` (set [0x41..<0x5B] \<union> set [0x61..<0x7B] \<union> set [0x30..<0x3A]
      \<union> {0x2D, 0x5F, 0x2E, 0x21, 0x7E, 0x2A, 0x27, 0x28, 0x29}) :: code_unit set)"
    by (simp only: atLeastLessThan_upt of_nat_unat ucast_id)
  then show "c \<in> set uri_unreserved"
    unfolding uri_unreserved_def js_def
    by (simp add: image_Un) blast
next
  assume "c \<in> set uri_unreserved"
  then show "unescaped c"
    by (auto simp: uri_unreserved_def js_def unescaped_def)
qed

lemma unreserved_unchanged:
  "set s \<subseteq> set uri_unreserved \<Longrightarrow> encodeURIComponent s = Inr s"
  by (induction s) (simp_all add: unescaped_iff_unreserved)

lemma percent_encoded_alphabet:
  assumes "percent_encoded enc" "c \<in> set enc"
  shows "c \<in> set uri_unreserved \<or> c = 0x25"
proof -
  from assms have "unescaped c \<or> c = 0x25 \<or> is_upper_hex c"
    by (rule percent_encoded_chars)
  moreover have "unescaped c" if "is_upper_hex c"
    using that by (auto simp: is_upper_hex_def unescaped_def)
  ultimately show ?thesis
    by (auto simp: unescaped_iff_unreserved)
qed

subsection \<open>Decoding gives the jurisdiction back\<close>

lemma unat_hex_digit:
  "d < 16 \<Longrightarrow> unat (hex_digit d) = (if d < 10 then 0x30 + d else 0x41 + (d - 10))"
proof (cases "d < 10")
  case True
  then have "unat (hex_digit d) = 0x30 + d"
    unfolding hex_digit_def by (simp only: if_True) (rule unat_small, simp)
  with True show ?thesis by simp
next
  case False
  assume "d < 16"
  with False have "unat (hex_digit d) = 0x41 + (d - 10)"
    unfolding hex_digit_def by (simp only: if_False) (rule unat_small, simp)
  with False show ?thesis by simp
qed

lemma hex_value_hex_digit: "d < 16 \<Longrightarrow> hex_value (hex_digit d) = Some d"
  by (auto simp: hex_value_def unat_hex_digit Let_def)

lemma hex_octet_escape:
  "octet < 256 \<Longrightarrow> hex_octet (hex_digit (octet div 16)) (hex_digit (octet mod 16)) = Some octet"
  by (simp add: hex_octet_def hex_value_hex_digit less_mult_imp_div_less)

lemma continuation_octets_escapes:
  "\<forall>octet\<in>set octets. octet < 256 \<Longrightarrow>
   continuation_octets (length octets) (concat (map percent_escape octets) @ rest) =
     Some (octets, rest)"
proof (induction octets)
  case Nil
  then show ?case by simp
next
  case (Cons octet octets)
  then have "hex_octet (hex_digit (octet div 16)) (hex_digit (octet mod 16)) = Some octet"
    by (simp add: hex_octet_escape)
  with Cons show ?case
    by (simp add: percent_escape_def)
qed

lemma decode_ascii_escape:
  assumes "octet < 0x80"
  shows "decodeURIComponent (percent_escape octet @ rest) =
           map_sum id ((#) (of_nat octet)) (decodeURIComponent rest)"
proof -
  from assms have "hex_octet (hex_digit (octet div 16)) (hex_digit (octet mod 16)) = Some octet"
    by (simp add: hex_octet_escape)
  with assms show ?thesis
    by (simp add: percent_escape_def leading_ones_def)
qed

lemma decode_multi_octet_escape:
  assumes lead: "octet < 256" "leading_ones octet = Suc (length octets)"
    and n: "octets \<noteq> []" "length octets \<le> 3"
    and rest: "\<forall>x\<in>set octets. x < 256"
  shows "decodeURIComponent (concat (map percent_escape (octet # octets)) @ rest) =
           (case utf8_code_point (octet # octets) of
              None \<Rightarrow> Inl URIError
            | Some cp \<Rightarrow>
                map_sum id ((@) (UTF16EncodeCodePoint cp)) (decodeURIComponent rest))"
proof -
  from lead have h: "hex_octet (hex_digit (octet div 16)) (hex_digit (octet mod 16)) = Some octet"
    by (simp add: hex_octet_escape)
  from n have len: "length octets \<noteq> 0" "\<not> 4 < Suc (length octets)"
    by simp_all
  from rest have c: "continuation_octets (length octets) (concat (map percent_escape octets) @ rest) =
      Some (octets, rest)"
    by (rule continuation_octets_escapes)
  show ?thesis
    using h lead(2) len c by (simp add: percent_escape_def)
qed

lemma leading_ones_lead:
  "0xC0 \<le> b \<Longrightarrow> b < 0xE0 \<Longrightarrow> leading_ones b = 2"
  "0xE0 \<le> b \<Longrightarrow> b < 0xF0 \<Longrightarrow> leading_ones b = 3"
  "0xF0 \<le> b \<Longrightarrow> b < 0xF8 \<Longrightarrow> leading_ones b = 4"
  by (simp_all add: leading_ones_def)

lemma split3: "(cp::nat) div 0x1000 * 0x1000 + cp div 0x40 mod 0x40 * 0x40 + cp mod 0x40 = cp"
proof -
  have a: "cp div 0x1000 = cp div 0x40 div 0x40"
    by (simp add: div_mult2_eq)
  show ?thesis
    using div_mult_mod_eq [of cp "0x40"] div_mult_mod_eq [of "cp div 0x40" "0x40"]
    unfolding a by linarith
qed

lemma split4:
  "(cp::nat) div 0x40000 * 0x40000 + cp div 0x1000 mod 0x40 * 0x1000
     + cp div 0x40 mod 0x40 * 0x40 + cp mod 0x40 = cp"
proof -
  have a: "cp div 0x1000 = cp div 0x40 div 0x40" "cp div 0x40000 = cp div 0x40 div 0x40 div 0x40"
    by (simp_all add: div_mult2_eq)
  show ?thesis
    using div_mult_mod_eq [of cp "0x40"] div_mult_mod_eq [of "cp div 0x40" "0x40"]
      div_mult_mod_eq [of "cp div 0x40 div 0x40" "0x40"]
    unfolding a by linarith
qed

lemma mod64_bound: "(x::nat) mod 0x40 < 0x80"
  by (rule order_less_trans [of _ "0x40"]) simp_all

lemma utf8_code_point_2:
  assumes "0x80 \<le> cp" "cp < 0x800"
  shows "utf8_code_point [0xC0 + cp div 0x40, 0x80 + cp mod 0x40] = Some cp"
proof -
  have "(0xC0 + cp div 0x40 - 0xC0) * 0x40 + (0x80 + cp mod 0x40 - 0x80) = cp"
    by simp
  moreover have "is_continuation (0x80 + cp mod 0x40)"
    by (simp add: is_continuation_def)
  ultimately show ?thesis
    using assms(1) unfolding utf8_code_point_def Let_def by (simp only: list.case if_True simp_thms)
qed

lemma utf8_code_point_3:
  assumes "0x800 \<le> cp" "cp < 0x10000" "\<not> (0xD800 \<le> cp \<and> cp \<le> 0xDFFF)"
  shows "utf8_code_point
           [0xE0 + cp div 0x1000, 0x80 + cp div 0x40 mod 0x40, 0x80 + cp mod 0x40] = Some cp"
proof -
  have "(0xE0 + cp div 0x1000 - 0xE0) * 0x1000 + (0x80 + cp div 0x40 mod 0x40 - 0x80) * 0x40
          + (0x80 + cp mod 0x40 - 0x80) = cp"
    using split3 [of cp] by simp
  moreover have "is_continuation (0x80 + cp div 0x40 mod 0x40)"
    "is_continuation (0x80 + cp mod 0x40)"
    by (simp_all add: is_continuation_def)
  ultimately show ?thesis
    using assms(1,3) unfolding utf8_code_point_def Let_def
    by (simp only: list.case if_True simp_thms)
qed

lemma utf8_code_point_4:
  assumes "0x10000 \<le> cp" "cp < 0x110000"
  shows "utf8_code_point
           [0xF0 + cp div 0x40000, 0x80 + cp div 0x1000 mod 0x40, 0x80 + cp div 0x40 mod 0x40,
            0x80 + cp mod 0x40] = Some cp"
proof -
  have "(0xF0 + cp div 0x40000 - 0xF0) * 0x40000 + (0x80 + cp div 0x1000 mod 0x40 - 0x80) * 0x1000
          + (0x80 + cp div 0x40 mod 0x40 - 0x80) * 0x40 + (0x80 + cp mod 0x40 - 0x80) = cp"
    using split4 [of cp] by simp
  moreover have "is_continuation (0x80 + cp div 0x1000 mod 0x40)"
    "is_continuation (0x80 + cp div 0x40 mod 0x40)" "is_continuation (0x80 + cp mod 0x40)"
    by (simp_all add: is_continuation_def)
  moreover from assms(2) have "cp \<le> 0x10FFFF"
    by simp
  ultimately show ?thesis
    using assms(1) unfolding utf8_code_point_def Let_def
    by (simp only: list.case if_True simp_thms)
qed

lemma decode_escape_code_point:
  assumes "scalar_value cp"
  shows "decodeURIComponent (escape_code_point cp @ rest) =
           map_sum id ((@) (UTF16EncodeCodePoint cp)) (decodeURIComponent rest)"
proof -
  consider "cp < 0x80" | "0x80 \<le> cp" "cp < 0x800" | "0x800 \<le> cp" "cp < 0x10000"
    | "0x10000 \<le> cp"
    by linarith
  then show ?thesis
  proof cases
    case 1
    then show ?thesis
      by (cases "decodeURIComponent rest")
        (simp_all add: escape_code_point_def utf8_octets_def decode_ascii_escape
          UTF16EncodeCodePoint_def)
  next
    case 2
    let ?lead = "0xC0 + cp div 0x40"
    let ?tail = "[0x80 + cp mod 0x40]"
    from 2 have o: "utf8_octets cp = ?lead # ?tail"
      by (simp add: utf8_octets_def)
    from 2 have b: "cp div 0x40 < 0x20"
      by simp
    then have "leading_ones ?lead = Suc (length ?tail)"
      by (simp add: leading_ones_lead)
    moreover from b have "?lead < 256"
      by simp
    moreover have "\<forall>x\<in>set ?tail. x < 256"
      by (simp add: mod64_bound)
    ultimately have "decodeURIComponent (concat (map percent_escape (?lead # ?tail)) @ rest) =
        (case utf8_code_point (?lead # ?tail) of
           None \<Rightarrow> Inl URIError
         | Some cp \<Rightarrow> map_sum id ((@) (UTF16EncodeCodePoint cp)) (decodeURIComponent rest))"
      by (intro decode_multi_octet_escape) simp_all
    then show ?thesis
      unfolding escape_code_point_def o utf8_code_point_2 [OF 2] by simp
  next
    case 3
    let ?lead = "0xE0 + cp div 0x1000"
    let ?tail = "[0x80 + cp div 0x40 mod 0x40, 0x80 + cp mod 0x40]"
    from 3 have o: "utf8_octets cp = ?lead # ?tail"
      by (simp add: utf8_octets_def)
    from 3 have b: "cp div 0x1000 < 0x10"
      by simp
    then have "leading_ones ?lead = Suc (length ?tail)"
      by (simp add: leading_ones_lead)
    moreover from b have "?lead < 256"
      by simp
    moreover have "\<forall>x\<in>set ?tail. x < 256"
      by (simp add: mod64_bound)
    ultimately have "decodeURIComponent (concat (map percent_escape (?lead # ?tail)) @ rest) =
        (case utf8_code_point (?lead # ?tail) of
           None \<Rightarrow> Inl URIError
         | Some cp \<Rightarrow> map_sum id ((@) (UTF16EncodeCodePoint cp)) (decodeURIComponent rest))"
      by (intro decode_multi_octet_escape) simp_all
    moreover from assms have "\<not> (0xD800 \<le> cp \<and> cp \<le> 0xDFFF)"
      by (simp add: scalar_value_def)
    ultimately show ?thesis
      unfolding escape_code_point_def o using utf8_code_point_3 [OF 3] by simp
  next
    case 4
    let ?lead = "0xF0 + cp div 0x40000"
    let ?tail = "[0x80 + cp div 0x1000 mod 0x40, 0x80 + cp div 0x40 mod 0x40, 0x80 + cp mod 0x40]"
    from assms have hi: "cp < 0x110000"
      by (simp add: scalar_value_def)
    from 4 have o: "utf8_octets cp = ?lead # ?tail"
      by (simp add: utf8_octets_def)
    from hi have b: "cp div 0x40000 < 5"
      by simp
    then have "leading_ones ?lead = Suc (length ?tail)"
      by (simp add: leading_ones_lead)
    moreover from b have "?lead < 256"
      by simp
    moreover have "\<forall>x\<in>set ?tail. x < 256"
      by (simp add: mod64_bound)
    ultimately have "decodeURIComponent (concat (map percent_escape (?lead # ?tail)) @ rest) =
        (case utf8_code_point (?lead # ?tail) of
           None \<Rightarrow> Inl URIError
         | Some cp \<Rightarrow> map_sum id ((@) (UTF16EncodeCodePoint cp)) (decodeURIComponent rest))"
      by (intro decode_multi_octet_escape) simp_all
    then show ?thesis
      unfolding escape_code_point_def o utf8_code_point_4 [OF 4 hi] by simp
  qed
qed

lemma UTF16Encode_code_unit:
  "UTF16EncodeCodePoint (unat (c :: code_unit)) = [c]"
proof -
  have "unat c < 0x10000"
    using unsigned_less [of c, where ?'a = nat] by simp
  then show ?thesis
    by (simp add: UTF16EncodeCodePoint_def)
qed

lemma UTF16Encode_surrogate_pair:
  assumes "is_leading_surrogate c" "is_trailing_surrogate d"
  shows "UTF16EncodeCodePoint (surrogate_pair_to_code_point c d) = [c, d]"
proof -
  let ?hi = "unat c - 0xD800" and ?lo = "unat d - 0xDC00"
  from assms have lo: "?lo < 0x400" and hi: "0xD800 \<le> unat c" and lo': "0xDC00 \<le> unat d"
    by (auto simp: is_leading_surrogate_def is_trailing_surrogate_def)
  have cp: "surrogate_pair_to_code_point c d - 0x10000 = ?hi * 0x400 + ?lo"
    by (simp add: surrogate_pair_to_code_point_def)
  from lo have "(?hi * 0x400 + ?lo) div 0x400 = ?hi" "(?hi * 0x400 + ?lo) mod 0x400 = ?lo"
    by simp_all
  with hi lo' have "(?hi * 0x400 + ?lo) div 0x400 + 0xD800 = unat c"
    "(?hi * 0x400 + ?lo) mod 0x400 + 0xDC00 = unat d"
    by simp_all
  then have units:
    "(surrogate_pair_to_code_point c d - 0x10000) div 0x400 + 0xD800 = unat c"
    "(surrogate_pair_to_code_point c d - 0x10000) mod 0x400 + 0xDC00 = unat d"
    unfolding cp .
  have big: "\<not> surrogate_pair_to_code_point c d \<le> 0xFFFF"
    by (simp add: surrogate_pair_to_code_point_def)
  show ?thesis
    unfolding UTF16EncodeCodePoint_def by (simp only: big if_False units) simp
qed

lemma scalar_value_code_unit:
  "\<not> is_leading_surrogate c \<Longrightarrow> \<not> is_trailing_surrogate c \<Longrightarrow> scalar_value (unat c)"
  using unsigned_less [of c, where ?'a = nat]
  by (auto simp: scalar_value_def is_leading_surrogate_def is_trailing_surrogate_def)

lemma scalar_value_surrogate_pair:
  "is_leading_surrogate c \<Longrightarrow> is_trailing_surrogate d \<Longrightarrow>
   scalar_value (surrogate_pair_to_code_point c d)"
  by (auto simp: scalar_value_def is_leading_surrogate_def is_trailing_surrogate_def
      surrogate_pair_to_code_point_def)

lemma decode_encode_round_trip:
  "encodeURIComponent s = Inr enc \<Longrightarrow> decodeURIComponent enc = Inr s"
proof (induction s arbitrary: enc rule: encodeURIComponent.induct)
  case 1
  then show ?case by simp
next
  case (2 c cs)
  show ?case
  proof (cases "unescaped c")
    case True
    with "2.prems" obtain enc' where e: "encodeURIComponent cs = Inr enc'" "enc = c # enc'"
      by (cases "encodeURIComponent cs") auto
    from "2.IH"(1) [OF True e(1)] True e(2) show ?thesis
      by (simp add: unescaped_not_percent)
  next
    case False
    note esc = False
    show ?thesis
    proof (cases "is_leading_surrogate c")
      case True
      with esc "2.prems" obtain d ds where cs: "cs = d # ds" and tr: "is_trailing_surrogate d"
        by (cases cs) (auto split: if_splits)
      with esc True "2.prems" obtain enc' where
        e: "encodeURIComponent ds = Inr enc'"
           "enc = escape_code_point (surrogate_pair_to_code_point c d) @ enc'"
        by (cases "encodeURIComponent ds") auto
      from "2.IH"(2) [OF esc True cs tr e(1)] have "decodeURIComponent enc' = Inr ds" .
      with e(2) True tr cs show ?thesis
        by (simp add: decode_escape_code_point scalar_value_surrogate_pair
            UTF16Encode_surrogate_pair)
    next
      case False
      with esc "2.prems" have nt: "\<not> is_trailing_surrogate c"
        by (auto split: if_splits)
      with esc False "2.prems" obtain enc' where
        e: "encodeURIComponent cs = Inr enc'" "enc = escape_code_point (unat c) @ enc'"
        by (cases "encodeURIComponent cs") auto
      from "2.IH"(3) [OF esc False nt e(1)] have "decodeURIComponent enc' = Inr cs" .
      with e(2) False nt show ?thesis
        by (simp add: decode_escape_code_point scalar_value_code_unit UTF16Encode_code_unit)
    qed
  qed
qed

lemma ampersand_encoded:
  "encodeURIComponent (js ''Trinidad & Tobago'') = Inr (js ''Trinidad%20%26%20Tobago'')"
  by (simp add: url_eval)

lemma emoji_encoded: "encodeURIComponent [0xD83D, 0xDE00] = Inr (js ''%F0%9F%98%80'')"
  by (simp add: url_eval surrogate_pair_to_code_point_def)


section \<open>Failures end in \<^verbatim>\<open>null\<close>\<close>

text \<open>
  C1. Whatever the arguments, the network and the response, each of the three methods
  fulfils its promise (it never rejects), and the value is either \<^verbatim>\<open>null\<close> or the JSON
  value decoded from the response to the request it issued, that response having a
  success status.
\<close>

theorem operations_total:
  "(\<exists>v w'. getStats net state minYear maxYear w = (Inr v, w')
        \<and> (v = JNull \<or> (\<exists>u r. stats_target state minYear maxYear = Inr u
                \<and> net (get_request u) = Inr r \<and> ok r \<and> json_outcome r = Inr v)))
   \<and> (\<exists>v w'. getTrend net state w = (Inr v, w')
        \<and> (v = JNull \<or> (\<exists>u r. trend_target state = Inr u
                \<and> net (get_request u) = Inr r \<and> ok r \<and> json_outcome r = Inr v)))
   \<and> (\<exists>v w'. getPrediction net state targetYear w = (Inr v, w')
        \<and> (v = JNull \<or> (\<exists>u r. predict_target state targetYear = Inr u
                \<and> net (get_request u) = Inr r \<and> ok r \<and> json_outcome r = Inr v)))"
proof (intro conjI)
  show "\<exists>v w'. getStats net state minYear maxYear w = (Inr v, w')
        \<and> (v = JNull \<or> (\<exists>u r. stats_target state minYear maxYear = Inr u
                \<and> net (get_request u) = Inr r \<and> ok r \<and> json_outcome r = Inr v))"
    unfolding getStats_outcome by (auto split: sum.splits)
  show "\<exists>v w'. getTrend net state w = (Inr v, w')
        \<and> (v = JNull \<or> (\<exists>u r. trend_target state = Inr u
                \<and> net (get_request u) = Inr r \<and> ok r \<and> json_outcome r = Inr v))"
    unfolding getTrend_outcome by (auto split: sum.splits)
  show "\<exists>v w'. getPrediction net state targetYear w = (Inr v, w')
        \<and> (v = JNull \<or> (\<exists>u r. predict_target state targetYear = Inr u
                \<and> net (get_request u) = Inr r \<and> ok r \<and> json_outcome r = Inr v))"
    unfolding getPrediction_outcome by (auto split: sum.splits)
qed

theorem operations_total_witness:
  "fst (getStats connection_refused (Some [0xD800]) None None fresh) = Inr JNull
   \<and> fst (getTrend connection_refused (Some [0xD800]) fresh) = Inr JNull
   \<and> fst (getPrediction connection_refused (Some [0xD800]) (Some 2025) fresh) = Inr JNull"
  using operations_total [where net = connection_refused and state = "Some [0xD800]"
      and minYear = None and maxYear = None and targetYear = "Some 2025" and w = fresh]
  by (auto simp: connection_refused_def)

text \<open>
  C2. When the response to the request of a call has a status outside 200 to 299, the call
  returns \<^verbatim>\<open>null\<close> whatever the body is, and the error it logs is the client's own
  \<^verbatim>\<open>Error\<close>; \<^verbatim>\<open>json()\<close> is not called (\<open>json_calls\<close> stays as it was), so the body is not
  decoded.
\<close>

theorem non_success_status_yields_null:
  assumes "status < 200 \<or> 299 < status"
  shows
    "(stats_target state minYear maxYear = Inr u
        \<longrightarrow> net (get_request u) = Inr (http_response status body)
        \<longrightarrow> getStats net state minYear maxYear w =
              (Inr JNull, w\<lparr>requests := requests w @ [get_request u],
                            console := console w @ [Error (js ''API Error fetching stats'')]\<rparr>))
     \<and> (trend_target state = Inr u
        \<longrightarrow> net (get_request u) = Inr (http_response status body)
        \<longrightarrow> getTrend net state w =
              (Inr JNull, w\<lparr>requests := requests w @ [get_request u],
                            console := console w @ [Error (js ''API Error fetching trend data'')]\<rparr>))
     \<and> (predict_target state targetYear = Inr u
        \<longrightarrow> net (get_request u) = Inr (http_response status body)
        \<longrightarrow> getPrediction net state targetYear w =
              (Inr JNull, w\<lparr>requests := requests w @ [get_request u],
                            console := console w @ [Error (js ''API Error fetching prediction'')]\<rparr>))"
  using assms by (auto simp: outcomes)

theorem non_success_status_yields_null_witness:
  \<open>((404::nat) < 200 \<or> 299 < (404::nat))
   \<and> stats_target None None None =
       Inr (js ''http://127.0.0.1:5000/api/stats?state=all&min_year=2017&max_year=2023'')
   \<and> getStats (stub_backend 404 (js ''{"total":123}'')) None None None fresh =
       (Inr JNull,
        \<lparr>requests =
           [get_request (js ''http://127.0.0.1:5000/api/stats?state=all&min_year=2017&max_year=2023'')],
         console = [Error (js ''API Error fetching stats'')], json_calls = 0\<rparr>)\<close>
proof -
  have s: "(404::nat) < 200 \<or> 299 < (404::nat)" by simp
  show ?thesis
    using non_success_status_yields_null [OF s, where state = None and minYear = None
        and maxYear = None and w = fresh and net = \<open>stub_backend 404 (js ''{"total":123}'')\<close>
        and body = \<open>js ''{"total":123}''\<close>
        and u = "js ''http://127.0.0.1:5000/api/stats?state=all&min_year=2017&max_year=2023''"]
      default_stats_target
    by (simp add: stub_backend_def fresh_def)
qed

text \<open>
  C4. When the transport fails (the promise of \<^verbatim>\<open>fetch\<close> is rejected), the call returns
  \<^verbatim>\<open>null\<close> and logs the rejection.
\<close>

theorem transport_failure_yields_null:
  "(stats_target state minYear maxYear = Inr u \<longrightarrow> net (get_request u) = Inl e
        \<longrightarrow> getStats net state minYear maxYear w =
              (Inr JNull, w\<lparr>requests := requests w @ [get_request u], console := console w @ [e]\<rparr>))
   \<and> (trend_target state = Inr u \<longrightarrow> net (get_request u) = Inl e
        \<longrightarrow> getTrend net state w =
              (Inr JNull, w\<lparr>requests := requests w @ [get_request u], console := console w @ [e]\<rparr>))
   \<and> (predict_target state targetYear = Inr u \<longrightarrow> net (get_request u) = Inl e
        \<longrightarrow> getPrediction net state targetYear w =
              (Inr JNull, w\<lparr>requests := requests w @ [get_request u], console := console w @ [e]\<rparr>))"
proof (intro conjI impI)
  assume "stats_target state minYear maxYear = Inr u" and "net (get_request u) = Inl e"
  then show "getStats net state minYear maxYear w =
      (Inr JNull, w\<lparr>requests := requests w @ [get_request u], console := console w @ [e]\<rparr>)"
    by (simp add: getStats_outcome)
next
  assume "trend_target state = Inr u" and "net (get_request u) = Inl e"
  then show "getTrend net state w =
      (Inr JNull, w\<lparr>requests := requests w @ [get_request u], console := console w @ [e]\<rparr>)"
    by (simp add: getTrend_outcome)
next
  assume "predict_target state targetYear = Inr u" and "net (get_request u) = Inl e"
  then show "getPrediction net state targetYear w =
      (Inr JNull, w\<lparr>requests := requests w @ [get_request u], console := console w @ [e]\<rparr>)"
    by (simp add: getPrediction_outcome)
qed

theorem transport_failure_yields_null_witness:
  "trend_target None = Inr (js ''http://127.0.0.1:5000/api/chart/trend?state=all'')
   \<and> connection_refused (get_request (js ''http://127.0.0.1:5000/api/chart/trend?state=all'')) =
       Inl (TypeError (js ''Failed to fetch''))
   \<and> getTrend connection_refused None fresh =
       (Inr JNull,
        \<lparr>requests = [get_request (js ''http://127.0.0.1:5000/api/chart/trend?state=all'')],
         console = [TypeError (js ''Failed to fetch'')], json_calls = 0\<rparr>)"
  using transport_failure_yields_null [where state = None and net = connection_refused
      and w = fresh and e = "TypeError (js ''Failed to fetch'')"
      and u = "js ''http://127.0.0.1:5000/api/chart/trend?state=all''"]
    default_trend_target
  by (simp add: connection_refused_def fresh_def)

text \<open>
  C5. When the response has a success status and its body is not JSON, the call returns
  \<^verbatim>\<open>null\<close> and logs the decoding error: the same value, the same request and the same
  console as when the transport fails with that error, the \<^verbatim>\<open>catch\<close> block being the same.
\<close>

theorem malformed_body_yields_null:
  assumes "200 \<le> status \<and> status \<le> 299" and "JSON_parse body = Inl err"
  shows
    "(stats_target state minYear maxYear = Inr u
        \<longrightarrow> net (get_request u) = Inr (http_response status body)
        \<longrightarrow> getStats net state minYear maxYear w =
              (Inr JNull,
               w\<lparr>requests := requests w @ [get_request u], console := console w @ [err],
                 json_calls := json_calls w + 1\<rparr>)
          \<and> getStats (\<lambda>rq. Inl err) state minYear maxYear w =
              (Inr JNull,
               w\<lparr>requests := requests w @ [get_request u], console := console w @ [err]\<rparr>))
     \<and> (trend_target state = Inr u
        \<longrightarrow> net (get_request u) = Inr (http_response status body)
        \<longrightarrow> getTrend net state w =
              (Inr JNull,
               w\<lparr>requests := requests w @ [get_request u], console := console w @ [err],
                 json_calls := json_calls w + 1\<rparr>)
          \<and> getTrend (\<lambda>rq. Inl err) state w =
              (Inr JNull,
               w\<lparr>requests := requests w @ [get_request u], console := console w @ [err]\<rparr>))
     \<and> (predict_target state targetYear = Inr u
        \<longrightarrow> net (get_request u) = Inr (http_response status body)
        \<longrightarrow> getPrediction net state targetYear w =
              (Inr JNull,
               w\<lparr>requests := requests w @ [get_request u], console := console w @ [err],
                 json_calls := json_calls w + 1\<rparr>)
          \<and> getPrediction (\<lambda>rq. Inl err) state targetYear w =
              (Inr JNull,
               w\<lparr>requests := requests w @ [get_request u], console := console w @ [err]\<rparr>))"
  using assms by (simp add: outcomes)

theorem malformed_body_yields_null_witness:
  "JSON_parse (js ''<html>Bad Gateway</html>'') = Inl SyntaxError
   \<and> predict_target None None =
       Inr (js ''http://127.0.0.1:5000/api/predict?state=all&target_year=2024'')
   \<and> getPrediction (stub_backend 200 (js ''<html>Bad Gateway</html>'')) None None fresh =
       (Inr JNull,
        \<lparr>requests =
           [get_request (js ''http://127.0.0.1:5000/api/predict?state=all&target_year=2024'')],
         console = [SyntaxError], json_calls = 1\<rparr>)"
proof -
  have s: "200 \<le> (200::nat) \<and> (200::nat) \<le> 299" by simp
  show ?thesis
    using malformed_body_yields_null [OF s JSON_parse_html, where state = None
        and targetYear = None and w = fresh
        and net = "stub_backend 200 (js ''<html>Bad Gateway</html>'')"
        and u = "js ''http://127.0.0.1:5000/api/predict?state=all&target_year=2024''"]
      default_predict_target JSON_parse_html
    by (simp add: stub_backend_def fresh_def)
qed

section \<open>Success returns the payload\<close>

text \<open>
  C3. For every jurisdiction and year range for which a request goes out, a response with
  status 200 and body \<^verbatim>\<open>{"total":123}\<close> makes \<^verbatim>\<open>getStats\<close> return exactly the object with the
  one property \<^verbatim>\<open>total\<close> of value 123; \<^verbatim>\<open>getPrediction("CA", 2025)\<close> returns exactly the parsed
  \<^verbatim>\<open>{"year":2025,"predicted":4200}\<close>; in general the decoded value of a successful response is
  returned as it is. Nothing is logged.
\<close>

theorem success_payload_returned_unmodified:
  \<open>(stats_target state minYear maxYear = Inr u
      \<longrightarrow> net (get_request u) = Inr (http_response 200 (js ''{"total":123}''))
      \<longrightarrow> getStats net state minYear maxYear w =
            (Inr (JObject [(js ''total'', JNumber 123)]),
             w\<lparr>requests := requests w @ [get_request u], json_calls := json_calls w + 1\<rparr>))
   \<and> (net (get_request (js ''http://127.0.0.1:5000/api/predict?state=CA&target_year=2025'')) =
          Inr (http_response 200 (js ''{"year":2025,"predicted":4200}''))
      \<longrightarrow> getPrediction net (Some (js ''CA'')) (Some 2025) w =
            (Inr (JObject [(js ''year'', JNumber 2025), (js ''predicted'', JNumber 4200)]),
             w\<lparr>requests := requests w
                  @ [get_request (js ''http://127.0.0.1:5000/api/predict?state=CA&target_year=2025'')],
               json_calls := json_calls w + 1\<rparr>))
   \<and> (stats_target state minYear maxYear = Inr u \<longrightarrow> net (get_request u) = Inr r
      \<longrightarrow> ok r \<longrightarrow> json_outcome r = Inr v
      \<longrightarrow> getStats net state minYear maxYear w =
            (Inr v, w\<lparr>requests := requests w @ [get_request u], json_calls := json_calls w + 1\<rparr>))
   \<and> (predict_target state targetYear = Inr u \<longrightarrow> net (get_request u) = Inr r
      \<longrightarrow> ok r \<longrightarrow> json_outcome r = Inr v
      \<longrightarrow> getPrediction net state targetYear w =
            (Inr v, w\<lparr>requests := requests w @ [get_request u], json_calls := json_calls w + 1\<rparr>))\<close>
proof (intro conjI impI)
  assume "stats_target state minYear maxYear = Inr u"
    and \<open>net (get_request u) = Inr (http_response 200 (js ''{"total":123}''))\<close>
  then show \<open>getStats net state minYear maxYear w =
      (Inr (JObject [(js ''total'', JNumber 123)]),
       w\<lparr>requests := requests w @ [get_request u], json_calls := json_calls w + 1\<rparr>)\<close>
    by (simp add: getStats_outcome JSON_parse_total_123)
next
  assume \<open>net (get_request (js ''http://127.0.0.1:5000/api/predict?state=CA&target_year=2025'')) =
      Inr (http_response 200 (js ''{"year":2025,"predicted":4200}''))\<close>
  then show \<open>getPrediction net (Some (js ''CA'')) (Some 2025) w =
      (Inr (JObject [(js ''year'', JNumber 2025), (js ''predicted'', JNumber 4200)]),
       w\<lparr>requests := requests w
            @ [get_request (js ''http://127.0.0.1:5000/api/predict?state=CA&target_year=2025'')],
         json_calls := json_calls w + 1\<rparr>)\<close>
    by (simp add: getPrediction_outcome predict_target_CA_2025 JSON_parse_prediction)
next
  assume "stats_target state minYear maxYear = Inr u" and "net (get_request u) = Inr r"
    and "ok r" and "json_outcome r = Inr v"
  then show "getStats net state minYear maxYear w =
      (Inr v, w\<lparr>requests := requests w @ [get_request u], json_calls := json_calls w + 1\<rparr>)"
    by (simp add: getStats_outcome)
next
  assume "predict_target state targetYear = Inr u" and "net (get_request u) = Inr r"
    and "ok r" and "json_outcome r = Inr v"
  then show "getPrediction net state targetYear w =
      (Inr v, w\<lparr>requests := requests w @ [get_request u], json_calls := json_calls w + 1\<rparr>)"
    by (simp add: getPrediction_outcome)
qed

theorem success_payload_returned_unmodified_witness:
  \<open>getStats (stub_backend 200 (js ''{"total":123}'')) None None None fresh =
     (Inr (JObject [(js ''total'', JNumber 123)]),
      \<lparr>requests =
         [get_request (js ''http://127.0.0.1:5000/api/stats?state=all&min_year=2017&max_year=2023'')],
       console = [], json_calls = 1\<rparr>)
   \<and> getPrediction (stub_backend 200 (js ''{"year":2025,"predicted":4200}''))
        (Some (js ''CA'')) (Some 2025) fresh =
     (Inr (JObject [(js ''year'', JNumber 2025), (js ''predicted'', JNumber 4200)]),
      \<lparr>requests =
         [get_request (js ''http://127.0.0.1:5000/api/predict?state=CA&target_year=2025'')],
       console = [], json_calls = 1\<rparr>)\<close>
proof (rule conjI)
  show \<open>getStats (stub_backend 200 (js ''{"total":123}'')) None None None fresh =
     (Inr (JObject [(js ''total'', JNumber 123)]),
      \<lparr>requests =
         [get_request (js ''http://127.0.0.1:5000/api/stats?state=all&min_year=2017&max_year=2023'')],
       console = [], json_calls = 1\<rparr>)\<close>
    using success_payload_returned_unmodified [where state = None and minYear = None
        and maxYear = None and w = fresh and net = \<open>stub_backend 200 (js ''{"total":123}'')\<close>
        and u = "js ''http://127.0.0.1:5000/api/stats?state=all&min_year=2017&max_year=2023''"]
      default_stats_target
    by (simp add: stub_backend_def fresh_def)
  show \<open>getPrediction (stub_backend 200 (js ''{"year":2025,"predicted":4200}''))
        (Some (js ''CA'')) (Some 2025) fresh =
     (Inr (JObject [(js ''year'', JNumber 2025), (js ''predicted'', JNumber 4200)]),
      \<lparr>requests =
         [get_request (js ''http://127.0.0.1:5000/api/predict?state=CA&target_year=2025'')],
       console = [], json_calls = 1\<rparr>)\<close>
    using success_payload_returned_unmodified [where w = fresh
        and net = \<open>stub_backend 200 (js ''{"year":2025,"predicted":4200}'')\<close>]
    by (simp add: stub_backend_def fresh_def)
qed

section \<open>The request URL\<close>

text \<open>
  C6. For every jurisdiction string that \<^verbatim>\<open>encodeURIComponent\<close> accepts, the value placed
  after \<^verbatim>\<open>state=\<close> in the request URL of each method is its percent-encoding: a text of
  unreserved characters and \<^verbatim>\<open>%XX\<close> escapes, with no space and no \<^verbatim>\<open>&\<close>, from which
  \<^verbatim>\<open>decodeURIComponent\<close> gives the jurisdiction back; its characters are letters, digits,
  \<^verbatim>\<open>- _ . ! ~ * ' ( )\<close> and \<^verbatim>\<open>%\<close>, and a jurisdiction made of unreserved characters only is
  sent as it is. The whole URL is stated for years that are safe integers. A string that
  cannot be encoded (an unpaired surrogate) is never sent, because no request goes out.
  \<^verbatim>\<open>New York\<close> becomes \<^verbatim>\<open>New%20York\<close>, and \<^verbatim>\<open>&\<close> becomes \<^verbatim>\<open>%26\<close>.
\<close>

theorem jurisdiction_percent_encoded:
  "(encodeURIComponent st = Inr enc \<longrightarrow>
      decodeURIComponent enc = Inr st
      \<and> percent_encoded enc \<and> 0x20 \<notin> set enc \<and> 0x26 \<notin> set enc
      \<and> (\<forall>c\<in>set enc. c \<in> set uri_unreserved \<or> c = 0x25)
      \<and> (set st \<subseteq> set uri_unreserved \<longrightarrow> enc = st)
      \<and> requests (snd (getTrend net (Some st) w)) =
          requests w @ [get_request (API_URL @ js ''/chart/trend?state='' @ enc)]
      \<and> (\<exists>years. requests (snd (getStats net (Some st) minYear maxYear w)) =
          requests w
          @ [get_request (API_URL @ js ''/stats?state='' @ enc @ js ''&min_year='' @ years)])
      \<and> (\<exists>year. requests (snd (getPrediction net (Some st) targetYear w)) =
          requests w
          @ [get_request (API_URL @ js ''/predict?state='' @ enc @ js ''&target_year='' @ year)])
      \<and> (is_safe_integer (default_arg 2017 minYear) \<longrightarrow>
         is_safe_integer (default_arg 2023 maxYear) \<longrightarrow>
         requests (snd (getStats net (Some st) minYear maxYear w)) =
          requests w
          @ [get_request (API_URL @ js ''/stats?state='' @ enc
               @ js ''&min_year='' @ Number_toString (default_arg 2017 minYear)
               @ js ''&max_year='' @ Number_toString (default_arg 2023 maxYear))])
      \<and> (is_safe_integer (default_arg 2024 targetYear) \<longrightarrow>
         requests (snd (getPrediction net (Some st) targetYear w)) =
          requests w
          @ [get_request (API_URL @ js ''/predict?state='' @ enc
               @ js ''&target_year='' @ Number_toString (default_arg 2024 targetYear))]))
   \<and> (encodeURIComponent st = Inl e \<longrightarrow>
      requests (snd (getStats net (Some st) minYear maxYear w)) = requests w
      \<and> requests (snd (getTrend net (Some st) w)) = requests w
      \<and> requests (snd (getPrediction net (Some st) targetYear w)) = requests w)
   \<and> encodeURIComponent (js ''New York'') = Inr (js ''New%20York'')
   \<and> encodeURIComponent (js ''Trinidad & Tobago'') = Inr (js ''Trinidad%20%26%20Tobago'')
   \<and> encodeURIComponent [0xD83D, 0xDE00] = Inr (js ''%F0%9F%98%80'')"
proof (intro conjI impI)
  assume enc: "encodeURIComponent st = Inr enc"
  then show "decodeURIComponent enc = Inr st"
    by (rule decode_encode_round_trip)
  from enc show pe: "percent_encoded enc"
    by (rule encodeURIComponent_percent_encoded)
  from pe show "0x20 \<notin> set enc" "0x26 \<notin> set enc"
    by (simp_all add: percent_encoded_no_space_ampersand)
  from pe show "\<forall>c\<in>set enc. c \<in> set uri_unreserved \<or> c = 0x25"
    by (blast dest: percent_encoded_alphabet)
  from enc show "enc = st" if "set st \<subseteq> set uri_unreserved"
    using that by (simp add: unreserved_unchanged)
  from enc show "requests (snd (getTrend net (Some st) w)) =
          requests w @ [get_request (API_URL @ js ''/chart/trend?state='' @ enc)]"
    by (simp add: requests_getTrend trend_url_def default_arg_def)
  from enc have stats: "requests (snd (getStats net (Some st) minYear maxYear w)) =
          requests w
          @ [get_request (API_URL @ js ''/stats?state='' @ enc
               @ js ''&min_year='' @ Number_toString (default_arg 2017 minYear)
               @ js ''&max_year='' @ Number_toString (default_arg 2023 maxYear))]"
    by (simp add: requests_getStats stats_url_def default_arg_def)
  from enc have predict: "requests (snd (getPrediction net (Some st) targetYear w)) =
          requests w
          @ [get_request (API_URL @ js ''/predict?state='' @ enc
               @ js ''&target_year='' @ Number_toString (default_arg 2024 targetYear))]"
    by (simp add: requests_getPrediction predict_url_def default_arg_def)
  from stats show "\<exists>years. requests (snd (getStats net (Some st) minYear maxYear w)) =
          requests w
          @ [get_request (API_URL @ js ''/stats?state='' @ enc @ js ''&min_year='' @ years)]"
    by blast
  from predict show "\<exists>year. requests (snd (getPrediction net (Some st) targetYear w)) =
          requests w
          @ [get_request (API_URL @ js ''/predict?state='' @ enc @ js ''&target_year='' @ year)]"
    by blast
  from stats show "requests (snd (getStats net (Some st) minYear maxYear w)) =
          requests w
          @ [get_request (API_URL @ js ''/stats?state='' @ enc
               @ js ''&min_year='' @ Number_toString (default_arg 2017 minYear)
               @ js ''&max_year='' @ Number_toString (default_arg 2023 maxYear))]" .
  from predict show "requests (snd (getPrediction net (Some st) targetYear w)) =
          requests w
          @ [get_request (API_URL @ js ''/predict?state='' @ enc
               @ js ''&target_year='' @ Number_toString (default_arg 2024 targetYear))]" .
next
  assume "encodeURIComponent st = Inl e"
  then show "requests (snd (getStats net (Some st) minYear maxYear w)) = requests w"
    "requests (snd (getTrend net (Some st) w)) = requests w"
    "requests (snd (getPrediction net (Some st) targetYear w)) = requests w"
    by (simp_all add: requests_after stats_url_def trend_url_def predict_url_def default_arg_def)
next
  show "encodeURIComponent (js ''New York'') = Inr (js ''New%20York'')"
    by (fact New_York_encoded)
  show "encodeURIComponent (js ''Trinidad & Tobago'') = Inr (js ''Trinidad%20%26%20Tobago'')"
    by (fact ampersand_encoded)
  show "encodeURIComponent [0xD83D, 0xDE00] = Inr (js ''%F0%9F%98%80'')"
    by (fact emoji_encoded)
qed

theorem jurisdiction_percent_encoded_witness:
  "encodeURIComponent (js ''Trinidad & Tobago'') = Inr (js ''Trinidad%20%26%20Tobago'')
   \<and> decodeURIComponent (js ''Trinidad%20%26%20Tobago'') = Inr (js ''Trinidad & Tobago'')
   \<and> is_safe_integer 2017 \<and> is_safe_integer 2023 \<and> is_safe_integer 2024
   \<and> requests (snd (getStats connection_refused (Some (js ''Trinidad & Tobago'')) None None fresh)) =
       [get_request
          (js ''http://127.0.0.1:5000/api/stats?state=Trinidad%20%26%20Tobago&min_year=2017&max_year=2023'')]
   \<and> requests (snd (getTrend connection_refused (Some (js ''Trinidad & Tobago'')) fresh)) =
       [get_request (js ''http://127.0.0.1:5000/api/chart/trend?state=Trinidad%20%26%20Tobago'')]
   \<and> requests (snd (getPrediction connection_refused (Some (js ''Trinidad & Tobago'')) None fresh)) =
       [get_request
          (js ''http://127.0.0.1:5000/api/predict?state=Trinidad%20%26%20Tobago&target_year=2024'')]"
proof -
  have safe: "is_safe_integer 2017" "is_safe_integer 2023" "is_safe_integer 2024"
    by (simp_all add: is_safe_integer_def)
  note t = jurisdiction_percent_encoded [where st = "js ''Trinidad & Tobago''"
      and enc = "js ''Trinidad%20%26%20Tobago''"
      and net = connection_refused and w = fresh and minYear = None and maxYear = None
      and targetYear = None, THEN conjunct1, rule_format, OF ampersand_encoded]
  have years: "is_safe_integer (default_arg 2017 None)" "is_safe_integer (default_arg 2023 None)"
    "is_safe_integer (default_arg 2024 None)"
    by (simp_all add: default_arg_def safe)
  note trip = t [THEN conjunct1]
  note urls = t [THEN conjunct2, THEN conjunct2, THEN conjunct2, THEN conjunct2, THEN conjunct2,
      THEN conjunct2]
  note trend = urls [THEN conjunct1]
  note rest = urls [THEN conjunct2, THEN conjunct2, THEN conjunct2]
  note stats = rest [THEN conjunct1, rule_format, OF years(1,2)]
  note predict = rest [THEN conjunct2, rule_format, OF years(3)]
  show ?thesis
    using trip trend stats predict safe ampersand_encoded
    by (simp add: fresh_def url_eval)
qed

text \<open>
  C7. With its arguments omitted, \<^verbatim>\<open>getTrend\<close> requests \<^verbatim>\<open>state=all\<close>, \<^verbatim>\<open>getPrediction\<close>
  requests \<^verbatim>\<open>state=all&target_year=2024\<close> and \<^verbatim>\<open>getStats\<close> requests
  \<^verbatim>\<open>state=all&min_year=2017&max_year=2023\<close>; an omitted argument behaves as its default.
\<close>

theorem defaults_applied:
  "requests (snd (getTrend net None w)) =
     requests w @ [get_request (js ''http://127.0.0.1:5000/api/chart/trend?state=all'')]
   \<and> requests (snd (getPrediction net None None w)) =
     requests w
     @ [get_request (js ''http://127.0.0.1:5000/api/predict?state=all&target_year=2024'')]
   \<and> requests (snd (getStats net None None None w)) =
     requests w
     @ [get_request
          (js ''http://127.0.0.1:5000/api/stats?state=all&min_year=2017&max_year=2023'')]
   \<and> getTrend net None = getTrend net (Some (js ''all''))
   \<and> getPrediction net None None = getPrediction net (Some (js ''all'')) (Some 2024)
   \<and> getStats net None None None = getStats net (Some (js ''all'')) (Some 2017) (Some 2023)"
proof (intro conjI)
  show "requests (snd (getTrend net None w)) =
     requests w @ [get_request (js ''http://127.0.0.1:5000/api/chart/trend?state=all'')]"
    by (simp add: requests_getTrend default_trend_target)
  show "requests (snd (getPrediction net None None w)) =
     requests w
     @ [get_request (js ''http://127.0.0.1:5000/api/predict?state=all&target_year=2024'')]"
    by (simp add: requests_getPrediction default_predict_target)
  show "requests (snd (getStats net None None None w)) =
     requests w
     @ [get_request
          (js ''http://127.0.0.1:5000/api/stats?state=all&min_year=2017&max_year=2023'')]"
    by (simp add: requests_getStats default_stats_target)
  show "getTrend net None = getTrend net (Some (js ''all''))"
    by (simp add: getTrend_def default_arg_def)
  show "getPrediction net None None = getPrediction net (Some (js ''all'')) (Some 2024)"
    by (simp add: getPrediction_def default_arg_def)
  show "getStats net None None None = getStats net (Some (js ''all'')) (Some 2017) (Some 2023)"
    by (simp add: getStats_def default_arg_def)
qed

theorem defaults_applied_witness:
  "requests (snd (getTrend connection_refused None fresh)) =
     [get_request (js ''http://127.0.0.1:5000/api/chart/trend?state=all'')]
   \<and> requests (snd (getPrediction connection_refused None None fresh)) =
     [get_request (js ''http://127.0.0.1:5000/api/predict?state=all&target_year=2024'')]
   \<and> requests (snd (getStats connection_refused None None None fresh)) =
     [get_request
        (js ''http://127.0.0.1:5000/api/stats?state=all&min_year=2017&max_year=2023'')]"
proof -
  note d = defaults_applied [of connection_refused fresh]
  show ?thesis
    using d [THEN conjunct1] d [THEN conjunct2, THEN conjunct1]
      d [THEN conjunct2, THEN conjunct2, THEN conjunct1]
    by (simp add: fresh_def)
qed

section \<open>Requests and diagnostics per call\<close>

text \<open>
  C8. A call does not always issue a request: with a jurisdiction that holds an unpaired
  surrogate, \<^verbatim>\<open>encodeURIComponent\<close> throws inside the \<^verbatim>\<open>try\<close> block before \<^verbatim>\<open>fetch\<close> is
  reached, and the call logs the \<^verbatim>\<open>URIError\<close> and returns \<^verbatim>\<open>null\<close> with no request made.
\<close>

theorem one_request_per_call_counterexample:
  "\<not> (\<exists>rq. requests (snd (getTrend (stub_backend 200 (js ''[]'')) (Some [0xD800]) fresh)) =
            requests fresh @ [rq])
   \<and> getTrend (stub_backend 200 (js ''[]'')) (Some [0xD800]) fresh =
       (Inr JNull, \<lparr>requests = [], console = [URIError], json_calls = 0\<rparr>)"
  by (simp add: getTrend_outcome trend_url_def default_arg_def unescaped_def
      is_leading_surrogate_def fresh_def)

text \<open>
  C8, as the code has it. A call issues exactly one \<^verbatim>\<open>GET\<close> request when its URL can be
  built and none when building it throws. On each of its four failure paths it hands
  exactly one record to \<^verbatim>\<open>console.error\<close>, the error that was caught: what
  \<^verbatim>\<open>encodeURIComponent\<close> threw, what \<^verbatim>\<open>fetch\<close> was rejected with, the client's own
  \<^verbatim>\<open>Error\<close> for a status that is not a success, or what \<^verbatim>\<open>json()\<close> was rejected with. When
  it succeeds it logs nothing.
\<close>

theorem requests_and_diagnostics:
  "(stats_target state minYear maxYear = Inl e \<longrightarrow>
      getStats net state minYear maxYear w = (Inr JNull, w\<lparr>console := console w @ [e]\<rparr>))
   \<and> (stats_target state minYear maxYear = Inr u \<longrightarrow> net (get_request u) = Inl e \<longrightarrow>
      getStats net state minYear maxYear w =
        (Inr JNull, w\<lparr>requests := requests w @ [get_request u], console := console w @ [e]\<rparr>))
   \<and> (stats_target state minYear maxYear = Inr u \<longrightarrow> net (get_request u) = Inr r \<longrightarrow> \<not> ok r \<longrightarrow>
      getStats net state minYear maxYear w =
        (Inr JNull,
         w\<lparr>requests := requests w @ [get_request u],
           console := console w @ [Error (js ''API Error fetching stats'')]\<rparr>))
   \<and> (stats_target state minYear maxYear = Inr u \<longrightarrow> net (get_request u) = Inr r \<longrightarrow> ok r \<longrightarrow>
      json_outcome r = Inl e \<longrightarrow>
      getStats net state minYear maxYear w =
        (Inr JNull,
         w\<lparr>requests := requests w @ [get_request u], console := console w @ [e],
           json_calls := json_calls w + 1\<rparr>))
   \<and> (stats_target state minYear maxYear = Inr u \<longrightarrow> net (get_request u) = Inr r \<longrightarrow> ok r \<longrightarrow>
      json_outcome r = Inr v \<longrightarrow>
      getStats net state minYear maxYear w =
        (Inr v, w\<lparr>requests := requests w @ [get_request u], json_calls := json_calls w + 1\<rparr>))
   \<and> (trend_target state = Inl e \<longrightarrow>
      getTrend net state w = (Inr JNull, w\<lparr>console := console w @ [e]\<rparr>))
   \<and> (trend_target state = Inr u \<longrightarrow> net (get_request u) = Inl e \<longrightarrow>
      getTrend net state w =
        (Inr JNull, w\<lparr>requests := requests w @ [get_request u], console := console w @ [e]\<rparr>))
   \<and> (trend_target state = Inr u \<longrightarrow> net (get_request u) = Inr r \<longrightarrow> \<not> ok r \<longrightarrow>
      getTrend net state w =
        (Inr JNull,
         w\<lparr>requests := requests w @ [get_request u],
           console := console w @ [Error (js ''API Error fetching trend data'')]\<rparr>))
   \<and> (trend_target state = Inr u \<longrightarrow> net (get_request u) = Inr r \<longrightarrow> ok r \<longrightarrow>
      json_outcome r = Inl e \<longrightarrow>
      getTrend net state w =
        (Inr JNull,
         w\<lparr>requests := requests w @ [get_request u], console := console w @ [e],
           json_calls := json_calls w + 1\<rparr>))
   \<and> (trend_target state = Inr u \<longrightarrow> net (get_request u) = Inr r \<longrightarrow> ok r \<longrightarrow>
      json_outcome r = Inr v \<longrightarrow>
      getTrend net state w =
        (Inr v, w\<lparr>requests := requests w @ [get_request u], json_calls := json_calls w + 1\<rparr>))
   \<and> (predict_target state targetYear = Inl e \<longrightarrow>
      getPrediction net state targetYear w = (Inr JNull, w\<lparr>console := console w @ [e]\<rparr>))
   \<and> (predict_target state targetYear = Inr u \<longrightarrow> net (get_request u) = Inl e \<longrightarrow>
      getPrediction net state targetYear w =
        (Inr JNull, w\<lparr>requests := requests w @ [get_request u], console := console w @ [e]\<rparr>))
   \<and> (predict_target state targetYear = Inr u \<longrightarrow> net (get_request u) = Inr r \<longrightarrow> \<not> ok r \<longrightarrow>
      getPrediction net state targetYear w =
        (Inr JNull,
         w\<lparr>requests := requests w @ [get_request u],
           console := console w @ [Error (js ''API Error fetching prediction'')]\<rparr>))
   \<and> (predict_target state targetYear = Inr u \<longrightarrow> net (get_request u) = Inr r \<longrightarrow> ok r \<longrightarrow>
      json_outcome r = Inl e \<longrightarrow>
      getPrediction net state targetYear w =
        (Inr JNull,
         w\<lparr>requests := requests w @ [get_request u], console := console w @ [e],
           json_calls := json_calls w + 1\<rparr>))
   \<and> (predict_target state targetYear = Inr u \<longrightarrow> net (get_request u) = Inr r \<longrightarrow> ok r \<longrightarrow>
      json_outcome r = Inr v \<longrightarrow>
      getPrediction net state targetYear w =
        (Inr v, w\<lparr>requests := requests w @ [get_request u], json_calls := json_calls w + 1\<rparr>))"
proof -
  have stats: "getStats net state minYear maxYear w =
      (Inr JNull, w\<lparr>console := console w @ [e]\<rparr>)"
    if "stats_target state minYear maxYear = Inl e"
    using that by (simp add: getStats_outcome)
  have trend: "getTrend net state w = (Inr JNull, w\<lparr>console := console w @ [e]\<rparr>)"
    if "trend_target state = Inl e"
    using that by (simp add: getTrend_outcome)
  have predict: "getPrediction net state targetYear w =
      (Inr JNull, w\<lparr>console := console w @ [e]\<rparr>)"
    if "predict_target state targetYear = Inl e"
    using that by (simp add: getPrediction_outcome)
  show ?thesis
    using stats trend predict by (simp add: outcomes)
qed

theorem requests_and_diagnostics_witness:
  \<open>getStats (stub_backend 200 (js ''{"total":123}'')) (Some [0xD800]) None None fresh =
     (Inr JNull, \<lparr>requests = [], console = [URIError], json_calls = 0\<rparr>)
   \<and> getStats connection_refused None None None fresh =
     (Inr JNull,
      \<lparr>requests =
         [get_request (js ''http://127.0.0.1:5000/api/stats?state=all&min_year=2017&max_year=2023'')],
       console = [TypeError (js ''Failed to fetch'')], json_calls = 0\<rparr>)
   \<and> getStats (stub_backend 503 (js ''{"total":123}'')) None None None fresh =
     (Inr JNull,
      \<lparr>requests =
         [get_request (js ''http://127.0.0.1:5000/api/stats?state=all&min_year=2017&max_year=2023'')],
       console = [Error (js ''API Error fetching stats'')], json_calls = 0\<rparr>)
   \<and> getStats (stub_backend 200 (js ''<html>Bad Gateway</html>'')) None None None fresh =
     (Inr JNull,
      \<lparr>requests =
         [get_request (js ''http://127.0.0.1:5000/api/stats?state=all&min_year=2017&max_year=2023'')],
       console = [SyntaxError], json_calls = 1\<rparr>)
   \<and> getStats (stub_backend 200 (js ''{"total":123}'')) None None None fresh =
     (Inr (JObject [(js ''total'', JNumber 123)]),
      \<lparr>requests =
         [get_request (js ''http://127.0.0.1:5000/api/stats?state=all&min_year=2017&max_year=2023'')],
       console = [], json_calls = 1\<rparr>)\<close>
proof -
  let ?u = "js ''http://127.0.0.1:5000/api/stats?state=all&min_year=2017&max_year=2023''"
  have answers: "stub_backend status body (get_request ?u) = Inr (http_response status body)"
    for status body
    by (simp add: stub_backend_def)
  have rejected: "connection_refused (get_request ?u) = Inl (TypeError (js ''Failed to fetch''))"
    by (simp add: connection_refused_def)
  note thrown = requests_and_diagnostics [where state = "Some [0xD800]" and minYear = None
      and maxYear = None and w = fresh and e = URIError
      and net = \<open>stub_backend 200 (js ''{"total":123}'')\<close>,
      THEN conjunct1, rule_format, OF lone_surrogate_target]
  note a = requests_and_diagnostics [where state = None and minYear = None and maxYear = None
      and w = fresh and u = ?u and net = connection_refused
      and e = "TypeError (js ''Failed to fetch'')",
      THEN conjunct2, THEN conjunct1, rule_format, OF default_stats_target rejected]
  have b: \<open>getStats (stub_backend 503 (js ''{"total":123}'')) None None None fresh =
      (Inr JNull,
       fresh\<lparr>requests := requests fresh @ [get_request ?u],
         console := console fresh @ [Error (js ''API Error fetching stats'')]\<rparr>)\<close>
    by (rule requests_and_diagnostics [where state = None and minYear = None and maxYear = None
          and w = fresh and u = ?u and net = \<open>stub_backend 503 (js ''{"total":123}'')\<close>
          and r = \<open>http_response 503 (js ''{"total":123}'')\<close>,
          THEN conjunct2, THEN conjunct2, THEN conjunct1, rule_format,
          OF default_stats_target answers])
      simp
  have c: "getStats (stub_backend 200 (js ''<html>Bad Gateway</html>'')) None None None fresh =
      (Inr JNull,
       fresh\<lparr>requests := requests fresh @ [get_request ?u],
         console := console fresh @ [SyntaxError], json_calls := json_calls fresh + 1\<rparr>)"
    by (rule requests_and_diagnostics [where state = None and minYear = None and maxYear = None
          and w = fresh and u = ?u
          and net = "stub_backend 200 (js ''<html>Bad Gateway</html>'')"
          and r = "http_response 200 (js ''<html>Bad Gateway</html>'')" and e = SyntaxError,
          THEN conjunct2, THEN conjunct2, THEN conjunct2, THEN conjunct1, rule_format,
          OF default_stats_target answers])
      (simp_all add: JSON_parse_html)
  have d: \<open>getStats (stub_backend 200 (js ''{"total":123}'')) None None None fresh =
      (Inr (JObject [(js ''total'', JNumber 123)]),
       fresh\<lparr>requests := requests fresh @ [get_request ?u],
         json_calls := json_calls fresh + 1\<rparr>)\<close>
    by (rule requests_and_diagnostics [where state = None and minYear = None and maxYear = None
          and w = fresh and u = ?u and net = \<open>stub_backend 200 (js ''{"total":123}'')\<close>
          and r = \<open>http_response 200 (js ''{"total":123}'')\<close>
          and v = "JObject [(js ''total'', JNumber 123)]",
          THEN conjunct2, THEN conjunct2, THEN conjunct2, THEN conjunct2, THEN conjunct1,
          rule_format, OF default_stats_target answers])
      (simp_all add: JSON_parse_total_123)
  show ?thesis
    using thrown a b c d by (simp add: fresh_def)
qed



section \<open>\<^verbatim>\<open>null\<close> as a payload\<close>

text \<open>
  C10. A response with status 200 and body \<^verbatim>\<open>null\<close> makes every method return \<^verbatim>\<open>null\<close>
  with nothing logged; the value returned is the same as the one returned when the
  transport fails, so \<^verbatim>\<open>null\<close> does not tell a failure from this success.
\<close>

theorem null_payload_looks_like_failure:
  "(stats_target state minYear maxYear = Inr u
      \<longrightarrow> net (get_request u) = Inr (http_response 200 (js ''null''))
      \<longrightarrow> getStats net state minYear maxYear w =
            (Inr JNull, w\<lparr>requests := requests w @ [get_request u], json_calls := json_calls w + 1\<rparr>)
          \<and> fst (getStats net state minYear maxYear w) =
            fst (getStats (\<lambda>rq. Inl e) state minYear maxYear w))
   \<and> (trend_target state = Inr u
      \<longrightarrow> net (get_request u) = Inr (http_response 200 (js ''null''))
      \<longrightarrow> getTrend net state w = (Inr JNull, w\<lparr>requests := requests w @ [get_request u], json_calls := json_calls w + 1\<rparr>)
          \<and> fst (getTrend net state w) = fst (getTrend (\<lambda>rq. Inl e) state w))
   \<and> (predict_target state targetYear = Inr u
      \<longrightarrow> net (get_request u) = Inr (http_response 200 (js ''null''))
      \<longrightarrow> getPrediction net state targetYear w =
            (Inr JNull, w\<lparr>requests := requests w @ [get_request u], json_calls := json_calls w + 1\<rparr>)
          \<and> fst (getPrediction net state targetYear w) =
            fst (getPrediction (\<lambda>rq. Inl e) state targetYear w))"
proof -
  have failed:
    "fst (getStats (\<lambda>rq. Inl e) state minYear maxYear w) = Inr JNull"
    "fst (getTrend (\<lambda>rq. Inl e) state w) = Inr JNull"
    "fst (getPrediction (\<lambda>rq. Inl e) state targetYear w) = Inr JNull"
    by (simp_all add: outcomes split: sum.splits)
  show ?thesis
  proof (intro conjI impI)
    assume "stats_target state minYear maxYear = Inr u"
      and "net (get_request u) = Inr (http_response 200 (js ''null''))"
    then show ok: "getStats net state minYear maxYear w =
        (Inr JNull, w\<lparr>requests := requests w @ [get_request u], json_calls := json_calls w + 1\<rparr>)"
      by (simp add: getStats_outcome JSON_parse_null)
    show "fst (getStats net state minYear maxYear w) =
        fst (getStats (\<lambda>rq. Inl e) state minYear maxYear w)"
      by (simp add: ok failed)
  next
    assume "trend_target state = Inr u"
      and "net (get_request u) = Inr (http_response 200 (js ''null''))"
    then show ok: "getTrend net state w =
        (Inr JNull, w\<lparr>requests := requests w @ [get_request u], json_calls := json_calls w + 1\<rparr>)"
      by (simp add: getTrend_outcome JSON_parse_null)
    show "fst (getTrend net state w) = fst (getTrend (\<lambda>rq. Inl e) state w)"
      by (simp add: ok failed)
  next
    assume "predict_target state targetYear = Inr u"
      and "net (get_request u) = Inr (http_response 200 (js ''null''))"
    then show ok: "getPrediction net state targetYear w =
        (Inr JNull, w\<lparr>requests := requests w @ [get_request u], json_calls := json_calls w + 1\<rparr>)"
      by (simp add: getPrediction_outcome JSON_parse_null)
    show "fst (getPrediction net state targetYear w) =
        fst (getPrediction (\<lambda>rq. Inl e) state targetYear w)"
      by (simp add: ok failed)
  qed
qed

theorem null_payload_looks_like_failure_witness:
  "getStats (stub_backend 200 (js ''null'')) None None None fresh =
     (Inr JNull,
      \<lparr>requests =
         [get_request (js ''http://127.0.0.1:5000/api/stats?state=all&min_year=2017&max_year=2023'')],
       console = [], json_calls = 1\<rparr>)
   \<and> fst (getStats (stub_backend 200 (js ''null'')) None None None fresh) =
     fst (getStats connection_refused None None None fresh)"
proof -
  have r: "stub_backend 200 (js ''null'')
             (get_request
                (js ''http://127.0.0.1:5000/api/stats?state=all&min_year=2017&max_year=2023'')) =
           Inr (http_response 200 (js ''null''))"
    by (simp add: stub_backend_def)
  note n = null_payload_looks_like_failure [where net = "stub_backend 200 (js ''null'')"
      and state = None and minYear = None and maxYear = None and targetYear = None
      and w = fresh and e = "TypeError (js ''Failed to fetch'')"
      and u = "js ''http://127.0.0.1:5000/api/stats?state=all&min_year=2017&max_year=2023''",
      THEN conjunct1, rule_format, OF default_stats_target r]
  then show ?thesis
    by (auto simp: fresh_def connection_refused_def [abs_def])
qed

end
